theory Spec2Isabelle
  imports Main "HOL-Library.Word"
begin

unbundle bit_operations_syntax

section \<open>Machine types, constants and the environment of \<open>pngDecoder.c\<close>\<close>

text \<open>
  The C program works on \<open>unsigned char\<close> and \<open>unsigned int\<close>; they are the 8-bit and
  32-bit words here. A buffer (\<open>unsigned char*\<close> together with the number of bytes that
  were allocated for it) is the list of its bytes.
\<close>

type_synonym u8 = "8 word"
type_synonym u32 = "32 word"

text \<open>\<open>int\<close> has 32 bits: \<open>sint\<close> reads the word as the C value.\<close>

type_synonym s32 = "32 word"

definition PNG_SIGNATURE_LENGTH :: nat where
  "PNG_SIGNATURE_LENGTH = 8"

definition CHUNK_DATA_LENGTH :: nat where
  "CHUNK_DATA_LENGTH = 4"

definition CHUNK_TYPE_LENGTH :: nat where
  "CHUNK_TYPE_LENGTH = 4"

definition CHUNK_CRC_LENGTH :: nat where
  "CHUNK_CRC_LENGTH = 4"

definition IHDR_LENGTH :: nat where
  "IHDR_LENGTH = 13"

definition IHDR_WIDTH_BYTES :: nat where
  "IHDR_WIDTH_BYTES = 4"

definition IHDR_HEIGHT_BYTES :: nat where
  "IHDR_HEIGHT_BYTES = 4"

definition IHDR_OTHER_BYTES :: nat where
  "IHDR_OTHER_BYTES = 1"

text \<open>The string literals \<open>"IEND"\<close> and \<open>"IDAT"\<close>, with their terminating zero byte.\<close>

definition LAST_CHUNK_TYPE_SIGNATURE :: "u8 list" where
  "LAST_CHUNK_TYPE_SIGNATURE = [0x49, 0x45, 0x4E, 0x44, 0]"

definition DATA_CHUNK_TYPE :: "u8 list" where
  "DATA_CHUNK_TYPE = [0x49, 0x44, 0x41, 0x54, 0]"

definition pngSignature :: "u8 list" where
  "pngSignature = [137, 80, 78, 71, 13, 10, 26, 10]"

text \<open>
  Every \<open>return -1\<close> of the program is one constructor, named after the message printed
  before it (\<open>FileSizeIsMinusOne\<close> is line 332, which prints nothing: \<open>fileSize\<close> is
  \<open>-1\<close> although the file was opened and sought). The last three are not return values: they mark the places where the C program
  leaves defined behaviour (a \<open>memcpy\<close> or \<open>memcmp\<close> whose range is not inside the
  object it reads or writes, the use of a block after a \<open>realloc\<close> whose result was thrown
  away moved or freed it).
\<close>

datatype error =
    CantOpenFile
  | CantFindEndOfFile
  | FileSizeIsMinusOne
  | UnableToAllocate
  | ReadingWentWrong
  | InvalidPngSignature
  | UnableToAllocateChunkData
  | ChecksumFailed
  | UnableToReallocateChunkArray
  | IhdrDataLengthTooSmall
  | IhdrWidthZero
  | IhdrHeightZero
  | InvalidIhdrBitDepth
  | InvalidIhdrColorType
  | IhdrInvalidPair
  | IhdrCompressionMethodNotZero
  | IhdrFilterMethodNotZero
  | IhdrInterlaceMethodNotValid
  | UnableToAllocateCompressedSource
  | UnableToAllocateUncompressedDestination
  | CannotDecompress
  | OutOfBoundsRead
  | OutOfBoundsWrite
  | UseAfterRealloc

text \<open>
  What the program takes from outside itself: the byte order of the host, the file at
  \<open>PNG_PATH\<close>, the allocator, the contents of memory that was never written, the width of
  \<open>unsigned long\<close> and zlib's \<open>uncompress\<close>.
\<close>

record env =
  host_le :: bool
  file_bytes :: "u8 list option"
  fseek_ok :: bool
  ftell_end :: "nat \<Rightarrow> int"
  malloc_ok :: "nat \<Rightarrow> bool"
  malloc_again_ok :: "nat \<Rightarrow> bool"
  realloc_ok :: "nat \<Rightarrow> bool"
  realloc_keeps :: "nat \<Rightarrow> bool"
  fresh :: "nat \<Rightarrow> u8"
  SIZE_MAX :: nat
  ULONG_MAX :: nat
  uncompress :: "nat \<Rightarrow> u8 list \<Rightarrow> int \<times> nat \<times> u8 list"

text \<open>
  \<^item> \<open>host_le\<close>: the host stores the least significant byte of an \<open>unsigned int\<close> first.
  \<^item> \<open>file_bytes\<close>: the contents of the file, \<open>None\<close> when \<open>fopen_s\<close> fails.
  \<^item> \<open>ftell_end n\<close>: the \<open>long\<close> that \<open>ftell\<close> returns at the end of a file of \<open>n\<close>
    bytes: \<open>n\<close>, or \<open>-1\<close> when the call fails (as it does where a \<open>long\<close> cannot hold
    \<open>n\<close>).
  \<^item> \<open>malloc_ok n\<close>: \<open>malloc(n)\<close> returns a block (for \<open>n = 0\<close> the C library may
    return \<open>NULL\<close>); \<open>realloc_ok n\<close>: the \<open>realloc\<close> of the chunk array to \<open>n\<close>
    elements returns a block.
  \<^item> \<open>malloc_again_ok n\<close>: \<open>malloc(n)\<close> returns a block when it is called while the
    block of the first \<open>malloc\<close> of \<open>DecompressIdatChuncks\<close> is held (line 303); the
    allocator has a state, and the second request can fail where the first did not.
  \<^item> \<open>realloc_keeps n\<close>: a \<open>realloc\<close> to \<open>n\<close> bytes whose result is thrown away left the
    block where it was. For \<open>n = 0\<close> the allocators of the Microsoft library and of glibc
    free the block.
  \<^item> \<open>SIZE_MAX\<close>: the largest \<open>size_t\<close>, at least \<open>2^31\<close>.
  \<^item> \<open>fresh\<close>: the bytes found in memory returned by \<open>malloc\<close>.
  \<^item> \<open>uncompress destLen source\<close>: zlib's return code (\<open>Z_OK\<close> is 0), the new
    \<open>*destLen\<close> and the bytes written to the destination.
\<close>

definition Z_OK :: int where
  "Z_OK = 0"

section \<open>Reading memory\<close>

text \<open>
  \<open>memcpy(dst, buffer + off, n)\<close>: the \<open>n\<close> bytes at offset \<open>off\<close>. The C program never
  compares \<open>off + n\<close> with the size of the buffer; the model does, and reports a range that
  is not inside the buffer as \<open>OutOfBoundsRead\<close>.
\<close>

definition memcpy_from :: "u8 list \<Rightarrow> nat \<Rightarrow> nat \<Rightarrow> error + u8 list" where
  "memcpy_from buffer off n =
     (if off + n \<le> length buffer then Inr (take n (drop off buffer)) else Inl OutOfBoundsRead)"

text \<open>
  The value of an \<open>unsigned int\<close> whose four bytes were written by \<open>memcpy\<close>, on a
  little-endian host (\<open>le\<close>) or a big-endian one.
\<close>

definition load_u32 :: "bool \<Rightarrow> u8 list \<Rightarrow> u32" where
  "load_u32 le bs =
     foldl (\<lambda>acc b. push_bit 8 acc OR ucast b) 0 (if le then rev bs else bs)"

definition store_u32 :: "bool \<Rightarrow> u32 \<Rightarrow> u8 list" where
  "store_u32 le v =
     (let be = [ucast (drop_bit 24 v), ucast (drop_bit 16 v), ucast (drop_bit 8 v), ucast v]
      in if le then rev be else be)"

text \<open>
  \<open>memcpy(&field, src, 1)\<close> into a four-byte field: the byte at the lowest address is
  replaced, the other three keep what they held.
\<close>

definition memcpy1_u32 :: "bool \<Rightarrow> u32 \<Rightarrow> u8 \<Rightarrow> u32" where
  "memcpy1_u32 le old b =
     (if le then (old AND 0xFFFFFF00) OR ucast b
      else (old AND 0x00FFFFFF) OR push_bit 24 (ucast b))"

text \<open>\<open>IsLittleEndian\<close>: the first byte of the union whose \<open>value\<close> is 1.\<close>

definition IsLittleEndian :: "env \<Rightarrow> bool" where
  "IsLittleEndian env = (hd (store_u32 (host_le env) 1) = 1)"

definition ToLittleEndian :: "u32 \<Rightarrow> u32" where
  "ToLittleEndian v =
     drop_bit 24 (v AND 0xFF000000) OR drop_bit 8 (v AND 0x00FF0000)
       OR push_bit 8 (v AND 0x0000FF00) OR push_bit 24 (v AND 0x000000FF)"

section \<open>zlib's \<open>crc32\<close>\<close>

text \<open>
  \<open>crc32(crc, buf, len)\<close> of zlib is the CRC-32 of ISO 3309 (reflected polynomial
  \<open>0xEDB88320\<close>, the running value complemented on the way in and out), so that
  \<open>crc32(0L, Z_NULL, 0)\<close> is 0 and the calls compose. zlib computes it from a table; this
  is the same function bit by bit.
\<close>

definition crc_bit :: "u32 \<Rightarrow> u32" where
  "crc_bit c = (if bit c 0 then drop_bit 1 c XOR 0xEDB88320 else drop_bit 1 c)"

definition crc_byte :: "u32 \<Rightarrow> u8 \<Rightarrow> u32" where
  "crc_byte c b =
     crc_bit (crc_bit (crc_bit (crc_bit (crc_bit (crc_bit (crc_bit (crc_bit (c XOR ucast b))))))))"

fun crc_update :: "u32 \<Rightarrow> u8 list \<Rightarrow> u32" where
  "crc_update c [] = c"
| "crc_update c (b # bs) = crc_update (crc_byte c b) bs"

definition crc32 :: "u32 \<Rightarrow> u8 list \<Rightarrow> u32" where
  "crc32 crc buf = NOT (crc_update (NOT crc) buf)"

section \<open>C strings\<close>

text \<open>
  \<open>strcmp\<close> on byte arrays: the comparison stops at the first difference or at the zero
  byte. Both arguments of every call in the program end with a zero byte; the end of the
  list counts as one.
\<close>

fun strcmp :: "u8 list \<Rightarrow> u8 list \<Rightarrow> int" where
  "strcmp (a # as) (b # bs) =
     (if a < b then - 1 else if b < a then 1 else if a = 0 then 0 else strcmp as bs)"
| "strcmp [] (b # bs) = (if b = 0 then 0 else - 1)"
| "strcmp (a # as) [] = (if a = 0 then 0 else 1)"
| "strcmp [] [] = 0"

section \<open>Chunks\<close>

text \<open>
  \<open>struct Chunk\<close>: \<open>type\<close> is the array of \<open>CHUNK_TYPE_LENGTH + 1\<close> bytes, \<open>data\<close> the
  block the pointer owns.
\<close>

record Chunk =
  dataLength :: u32
  type :: "u8 list"
  data :: "u8 list"

text \<open>
  \<open>ReadChunk\<close> (lines 98 to 143). The result is the chunk and the new value of
  \<open>*cursor\<close>; \<open>buffer + *cursor\<close> is computed in pointer width, the cursor itself wraps
  at \<open>2^32\<close>.
\<close>

definition ReadChunk :: "env \<Rightarrow> u8 list \<Rightarrow> u32 \<Rightarrow> bool \<Rightarrow> error + Chunk \<times> u32" where
  "ReadChunk env buffer cursor isLittleEndian =
     (case memcpy_from buffer (unat cursor) CHUNK_DATA_LENGTH of
        Inl e \<Rightarrow> Inl e
      | Inr lengthBytes \<Rightarrow>
         (let dataLength0 = load_u32 (host_le env) lengthBytes;
              dataLength1 = (if isLittleEndian then ToLittleEndian dataLength0 else dataLength0);
              cursor1 = cursor + of_nat CHUNK_DATA_LENGTH
          in (case memcpy_from buffer (unat cursor1) CHUNK_TYPE_LENGTH of
                Inl e \<Rightarrow> Inl e
              | Inr typeBytes \<Rightarrow>
                 (let type1 = typeBytes @ [0];
                      cursor2 = cursor1 + of_nat CHUNK_TYPE_LENGTH
                  in if \<not> malloc_ok env (unat dataLength1) then Inl UnableToAllocateChunkData
                     else (case memcpy_from buffer (unat cursor2) (unat dataLength1) of
                             Inl e \<Rightarrow> Inl e
                           | Inr data1 \<Rightarrow>
                              (let cursor3 = cursor2 + dataLength1
                               in (case memcpy_from buffer (unat cursor3) CHUNK_CRC_LENGTH of
                                     Inl e \<Rightarrow> Inl e
                                   | Inr crcBytes \<Rightarrow>
                                      (let crc0 = load_u32 (host_le env) crcBytes;
                                           crc = (if isLittleEndian then ToLittleEndian crc0
                                                  else crc0);
                                           cursor4 = cursor3 + of_nat CHUNK_CRC_LENGTH;
                                           checksum0 = crc32 0 [];
                                           checksum1 =
                                             crc32 checksum0 (take CHUNK_TYPE_LENGTH type1);
                                           checksum = crc32 checksum1 data1
                                       in if crc \<noteq> checksum then Inl ChecksumFailed
                                          else Inr (\<lparr>dataLength = dataLength1, type = type1,
                                                      data = data1\<rparr>, cursor4)))))))))"

text \<open>
  \<open>AppendChunk\<close> (lines 145 to 157): the array grows to \<open>arraySize\<close> elements and the
  chunk is stored in the last one. \<open>main\<close> always passes the old size plus one.
\<close>

definition AppendChunk :: "env \<Rightarrow> Chunk list \<Rightarrow> nat \<Rightarrow> Chunk \<Rightarrow> error + Chunk list" where
  "AppendChunk env chunkDynamicArray arraySize chunk =
     (if \<not> realloc_ok env arraySize then Inl UnableToReallocateChunkArray
      else Inr (take (arraySize - 1) chunkDynamicArray @ [chunk]))"

text \<open>
  The loop of \<open>main\<close> (lines 348 to 375), from a cursor and the chunks read so far. It has
  no bound of its own, so its model is a partial function: \<open>None\<close> is a loop that never
  ends. It returns the chunk array and the final cursor.
\<close>

partial_function (option) main_loop ::
  "env \<Rightarrow> u8 list \<Rightarrow> bool \<Rightarrow> u32 \<Rightarrow> Chunk list \<Rightarrow> (error + Chunk list \<times> u32) option" where
  "main_loop env buffer isLittleEndian cursor chunkDynamicArray =
     (case ReadChunk env buffer cursor isLittleEndian of
        Inl e \<Rightarrow> Some (Inl e)
      | Inr (chunk, cursor') \<Rightarrow>
         (case AppendChunk env chunkDynamicArray (Suc (length chunkDynamicArray)) chunk of
            Inl e \<Rightarrow> Some (Inl e)
          | Inr chunkDynamicArray' \<Rightarrow>
              if strcmp (type chunk) LAST_CHUNK_TYPE_SIGNATURE = 0
              then Some (Inr (chunkDynamicArray', cursor'))
              else main_loop env buffer isLittleEndian cursor' chunkDynamicArray'))"

declare main_loop.simps [code]

section \<open>Opening the file\<close>

text \<open>
  An \<open>int\<close> passed where a \<open>size_t\<close> is expected (\<open>malloc\<close>, \<open>fread_s\<close>): a negative
  value wraps around.
\<close>

definition size_t_of_int :: "env \<Rightarrow> s32 \<Rightarrow> nat" where
  "size_t_of_int env v =
     (if 0 \<le> sint v then nat (sint v) else SIZE_MAX env + 1 - nat (- sint v))"

text \<open>
  \<open>GetFileSize\<close> (lines 26 to 45): line 41 stores the \<open>long\<close> that \<open>ftell\<close> returns in
  an \<open>int\<close>, which keeps its low 32 bits. The two errors that print a message are
  \<open>Inl\<close>; the value can be \<open>-1\<close> as well, and \<open>main\<close> tests for it.
\<close>

definition GetFileSize :: "env \<Rightarrow> error + s32" where
  "GetFileSize env =
     (case file_bytes env of
        None \<Rightarrow> Inl CantOpenFile
      | Some bytes \<Rightarrow>
          if \<not> fseek_ok env then Inl CantFindEndOfFile
          else Inr (word_of_int (ftell_end env (length bytes))))"

text \<open>
  \<open>FillBuffer\<close> (lines 47 to 78): the buffer has \<open>fileSize\<close> bytes (as a \<open>size_t\<close>);
  \<open>fread_s\<close> copies up to that many elements of one byte from the start of the file into
  it and returns how many it read, the bytes behind them are what \<open>malloc\<close> left there;
  \<open>memcmp\<close> compares \<open>PNG_SIGNATURE_LENGTH\<close> bytes of the buffer with the signature. The
  result is the buffer and \<open>*cursor\<close>.
\<close>

definition FillBuffer :: "env \<Rightarrow> s32 \<Rightarrow> error + u8 list \<times> u32" where
  "FillBuffer env fileSize =
     (case file_bytes env of
        None \<Rightarrow> Inl CantOpenFile
      | Some bytes \<Rightarrow>
         (let n = size_t_of_int env fileSize;
              elementsRead = min n (length bytes);
              buffer = take n bytes @ map (fresh env) [length bytes..<n]
          in if elementsRead \<le> 0 then Inl ReadingWentWrong
             else (case memcpy_from buffer 0 PNG_SIGNATURE_LENGTH of
                     Inl e \<Rightarrow> Inl e
                   | Inr first \<Rightarrow>
                       if pngSignature \<noteq> first then Inl InvalidPngSignature
                       else Inr (buffer, of_nat PNG_SIGNATURE_LENGTH))))"

text \<open>
  \<open>main\<close> up to the end of the chunk loop (lines 326 to 375): the chunk array and the
  cursor, or the error \<open>main\<close> returns \<open>-1\<close> for.
\<close>

definition main_parse :: "env \<Rightarrow> (error + Chunk list \<times> u32) option" where
  "main_parse env =
     (let isLittleEndian = IsLittleEndian env
      in (case GetFileSize env of
            Inl e \<Rightarrow> Some (Inl e)
          | Inr fileSize \<Rightarrow>
              if fileSize = - 1 then Some (Inl FileSizeIsMinusOne)
              else if \<not> malloc_ok env (size_t_of_int env fileSize)
              then Some (Inl UnableToAllocate)
              else (case FillBuffer env fileSize of
                      Inl e \<Rightarrow> Some (Inl e)
                    | Inr (buffer, cursor) \<Rightarrow> main_loop env buffer isLittleEndian cursor [])))"

section \<open>The header chunk\<close>

text \<open>
  \<open>struct Ihdr\<close>: \<open>bitDepth\<close> is an \<open>unsigned int\<close> and \<open>colorType\<close> an enum of the
  size of an \<open>int\<close>, four bytes each; the three methods are one \<open>char\<close> each.
\<close>

record Ihdr =
  width :: u32
  height :: u32
  bitDepth :: u32
  colorType :: u32
  compressionMethod :: u8
  filterMethod :: u8
  interlaceMethod :: u8

definition GRAYSCALE :: u32 where
  "GRAYSCALE = 0"

definition TRUECOLOR :: u32 where
  "TRUECOLOR = 2"

definition INDEXED_COLOR :: u32 where
  "INDEXED_COLOR = 3"

definition GRAYSCALE_WITH_ALPHA :: u32 where
  "GRAYSCALE_WITH_ALPHA = 4"

definition TRUECOLOR_WITH_ALPHA :: u32 where
  "TRUECOLOR_WITH_ALPHA = 6"

text \<open>
  The \<open>switch\<close> on the colour type (lines 223 to 253): the bit depths each case lets
  through. \<open>GRAYSCALE\<close> has no case.
\<close>

definition pair_ok :: "u32 \<Rightarrow> u32 \<Rightarrow> bool" where
  "pair_ok ct bd =
     (if ct = TRUECOLOR then \<not> (bd \<noteq> 8 \<and> bd \<noteq> 16)
      else if ct = INDEXED_COLOR then \<not> (bd \<noteq> 1 \<and> bd \<noteq> 2 \<and> bd \<noteq> 4 \<and> bd \<noteq> 8)
      else if ct = GRAYSCALE_WITH_ALPHA then \<not> (bd \<noteq> 8 \<and> bd \<noteq> 16)
      else if ct = TRUECOLOR_WITH_ALPHA then \<not> (bd \<noteq> 8 \<and> bd \<noteq> 16)
      else True)"

text \<open>
  \<open>GetIhdrChunkData\<close> (lines 180 to 280). \<open>ihdr\<close> is what the structure held before the
  call: \<open>main\<close> declares it without an initialiser. The width and height are tested
  before their bytes are swapped. The bit depth and the colour type are written with a
  \<open>memcpy\<close> of one byte.
\<close>

definition GetIhdrChunkData :: "env \<Rightarrow> Chunk \<Rightarrow> Ihdr \<Rightarrow> bool \<Rightarrow> error + Ihdr" where
  "GetIhdrChunkData env ihdrChunk ihdr isLittleEndian =
     (if unat (dataLength ihdrChunk) < IHDR_LENGTH then Inl IhdrDataLengthTooSmall
      else (case memcpy_from (data ihdrChunk) 0 IHDR_WIDTH_BYTES of
        Inl e \<Rightarrow> Inl e
      | Inr widthBytes \<Rightarrow>
     (let ihdr1 = ihdr\<lparr>width := load_u32 (host_le env) widthBytes\<rparr>
      in if width ihdr1 \<le> 0 then Inl IhdrWidthZero
      else (case memcpy_from (data ihdrChunk) 4 IHDR_HEIGHT_BYTES of
        Inl e \<Rightarrow> Inl e
      | Inr heightBytes \<Rightarrow>
     (let ihdr2 = ihdr1\<lparr>height := load_u32 (host_le env) heightBytes\<rparr>
      in if height ihdr2 \<le> 0 then Inl IhdrHeightZero
      else
     (let ihdr3 = (if isLittleEndian
                   then ihdr2\<lparr>width := ToLittleEndian (width ihdr2),
                              height := ToLittleEndian (height ihdr2)\<rparr>
                   else ihdr2)
      in (case memcpy_from (data ihdrChunk) 8 IHDR_OTHER_BYTES of
        Inl e \<Rightarrow> Inl e
      | Inr bitDepthBytes \<Rightarrow>
     (let ihdr4 = ihdr3\<lparr>bitDepth := memcpy1_u32 (host_le env) (bitDepth ihdr3) (hd bitDepthBytes)\<rparr>
      in if bitDepth ihdr4 \<noteq> 1 \<and> bitDepth ihdr4 \<noteq> 2 \<and> bitDepth ihdr4 \<noteq> 4
            \<and> bitDepth ihdr4 \<noteq> 8 \<and> bitDepth ihdr4 \<noteq> 16
         then Inl InvalidIhdrBitDepth
      else (case memcpy_from (data ihdrChunk) 9 IHDR_OTHER_BYTES of
        Inl e \<Rightarrow> Inl e
      | Inr colorTypeBytes \<Rightarrow>
     (let ihdr5 = ihdr4\<lparr>colorType :=
                    memcpy1_u32 (host_le env) (colorType ihdr4) (hd colorTypeBytes)\<rparr>
      in if colorType ihdr5 \<noteq> GRAYSCALE \<and> colorType ihdr5 \<noteq> TRUECOLOR
            \<and> colorType ihdr5 \<noteq> INDEXED_COLOR \<and> colorType ihdr5 \<noteq> GRAYSCALE_WITH_ALPHA
            \<and> colorType ihdr5 \<noteq> TRUECOLOR_WITH_ALPHA
         then Inl InvalidIhdrColorType
      else if \<not> pair_ok (colorType ihdr5) (bitDepth ihdr5) then Inl IhdrInvalidPair
      else (case memcpy_from (data ihdrChunk) 10 IHDR_OTHER_BYTES of
        Inl e \<Rightarrow> Inl e
      | Inr compressionBytes \<Rightarrow>
     (let ihdr6 = ihdr5\<lparr>compressionMethod := hd compressionBytes\<rparr>
      in if compressionMethod ihdr6 \<noteq> 0 then Inl IhdrCompressionMethodNotZero
      else (case memcpy_from (data ihdrChunk) 11 IHDR_OTHER_BYTES of
        Inl e \<Rightarrow> Inl e
      | Inr filterBytes \<Rightarrow>
     (let ihdr7 = ihdr6\<lparr>filterMethod := hd filterBytes\<rparr>
      in if filterMethod ihdr7 \<noteq> 0 then Inl IhdrFilterMethodNotZero
      else (case memcpy_from (data ihdrChunk) 12 IHDR_OTHER_BYTES of
        Inl e \<Rightarrow> Inl e
      | Inr interlaceBytes \<Rightarrow>
     (let ihdr8 = ihdr7\<lparr>interlaceMethod := hd interlaceBytes\<rparr>
      in if interlaceMethod ihdr8 \<noteq> 0 \<and> interlaceMethod ihdr8 \<noteq> 1
         then Inl IhdrInterlaceMethodNotValid
         else Inr ihdr8))))))))))))))))"

section \<open>The image data\<close>

text \<open>
  \<open>memcpy(dst + off, src, n)\<close> into a block of memory, which is a function from offsets
  to bytes: a block returned by \<open>malloc\<close> holds \<open>fresh env\<close> until it is written.
\<close>

definition memcpy_to :: "(nat \<Rightarrow> u8) \<Rightarrow> nat \<Rightarrow> u8 list \<Rightarrow> (nat \<Rightarrow> u8)" where
  "memcpy_to mem off bytes =
     (\<lambda>i. if off \<le> i \<and> i < off + length bytes then bytes ! (i - off) else mem i)"

text \<open>
  The loop of \<open>DecompressIdatChuncks\<close> (lines 292 to 300) over the chunks that are left,
  with \<open>compressedSource\<close>, \<open>compressedSourceIndex\<close> (an \<open>unsigned int\<close>) and
  \<open>compressedSize\<close> (an \<open>unsigned long\<close>). The index is incremented, the size grows by
  the length of the chunk.
\<close>

fun idat_loop ::
  "env \<Rightarrow> Chunk list \<Rightarrow> (nat \<Rightarrow> u8) \<Rightarrow> u32 \<Rightarrow> nat \<Rightarrow> error + (nat \<Rightarrow> u8) \<times> u32 \<times> nat" where
  "idat_loop env [] compressedSource compressedSourceIndex compressedSize =
     Inr (compressedSource, compressedSourceIndex, compressedSize)"
| "idat_loop env (c # cs) compressedSource compressedSourceIndex compressedSize =
     (if strcmp (type c) DATA_CHUNK_TYPE = 0
      then (case memcpy_from (data c) 0 (unat (dataLength c)) of
              Inl e \<Rightarrow> Inl e
            | Inr bytes \<Rightarrow>
                if ULONG_MAX env < unat compressedSourceIndex + length bytes
                then Inl OutOfBoundsWrite
                else idat_loop env cs
                       (memcpy_to compressedSource (unat compressedSourceIndex) bytes)
                       (compressedSourceIndex + 1)
                       ((compressedSize + unat (dataLength c)) mod (ULONG_MAX env + 1)))
      else idat_loop env cs compressedSource compressedSourceIndex compressedSize)"

text \<open>
  What \<open>DecompressIdatChuncks\<close> leaves behind when it returns 0: the caller's variable
  \<open>uncompressedDestination\<close>, \<open>*uncompressedSize\<close>, and the block that the function's own
  copy of the pointer refers to. A pointer is the contents of its block, \<open>None\<close> when it
  was never assigned.
\<close>

record decompressed =
  caller_uncompressedDestination :: "u8 list option"
  caller_uncompressedSize :: nat
  local_uncompressedDestination :: "u8 list"

text \<open>
  \<open>DecompressIdatChuncks\<close> (lines 282 to 322). \<open>uncompressedDestination\<close> is a parameter
  passed by value: the assignment of line 303 changes the function's copy, and so does the
  \<open>realloc\<close> of line 319, whose result is dropped. The result of the \<open>realloc\<close> of
  line 301 is dropped too, and the block is used afterwards.
  \<open>handed_to_uncompress\<close> is the source buffer and its length as line 310 passes them.
\<close>

definition handed_to_uncompress :: "env \<Rightarrow> Chunk list \<Rightarrow> nat \<Rightarrow> error + u8 list" where
  "handed_to_uncompress env chunkDynamicArray chunkArraySize =
     (case idat_loop env (take chunkArraySize chunkDynamicArray) (fresh env) 0 0 of
        Inl e \<Rightarrow> Inl e
      | Inr (compressedSource, compressedSourceIndex, compressedSize) \<Rightarrow>
          Inr (map compressedSource [0..<compressedSize]))"

definition DecompressIdatChuncks ::
  "env \<Rightarrow> Chunk list \<Rightarrow> nat \<Rightarrow> u8 list option \<Rightarrow> nat \<Rightarrow> error + decompressed" where
  "DecompressIdatChuncks env chunkDynamicArray chunkArraySize uncompressedDestination
       uncompressedSize =
     (if \<not> malloc_ok env (ULONG_MAX env) then Inl UnableToAllocateCompressedSource
      else (case handed_to_uncompress env chunkDynamicArray chunkArraySize of
              Inl e \<Rightarrow> Inl e
            | Inr source \<Rightarrow>
                if \<not> realloc_keeps env (length source) then Inl UseAfterRealloc
                else if \<not> malloc_again_ok env (ULONG_MAX env)
                then Inl UnableToAllocateUncompressedDestination
                else (case uncompress env uncompressedSize source of
                        (result, uncompressedSize', dest) \<Rightarrow>
                          if result \<noteq> Z_OK then Inl CannotDecompress
                          else Inr \<lparr>caller_uncompressedDestination = uncompressedDestination,
                                    caller_uncompressedSize = uncompressedSize',
                                    local_uncompressedDestination = dest\<rparr>)))"

text \<open>
  \<open>main\<close> from the header to the call of \<open>DecompressIdatChuncks\<close> (lines 377 to 399),
  on the chunk array the loop produced, which holds at least one chunk. \<open>ihdr\<close> is what
  the structure of line 377 holds before it is filled; the pointer of line 388 has no
  initialiser and is passed as it is.
\<close>

definition main_decode :: "env \<Rightarrow> Ihdr \<Rightarrow> Chunk list \<Rightarrow> error + Ihdr \<times> decompressed" where
  "main_decode env ihdr chunkDynamicArray =
     (case chunkDynamicArray of
        [] \<Rightarrow> Inl OutOfBoundsRead
      | ihdrChunk # _ \<Rightarrow>
         (case GetIhdrChunkData env ihdrChunk ihdr (IsLittleEndian env) of
            Inl e \<Rightarrow> Inl e
          | Inr ihdr' \<Rightarrow>
             (case DecompressIdatChuncks env chunkDynamicArray (length chunkDynamicArray) None
                     (ULONG_MAX env) of
                Inl e \<Rightarrow> Inl e
              | Inr d \<Rightarrow> Inr (ihdr', d))))"

text \<open>
  \<open>main\<close> as a whole, up to line 405: the walk, then the header and the image data. The
  loop of lines 406 to 409, which prints bytes read through \<open>uncompressedDestination\<close>,
  is not part of the model.
\<close>

definition main :: "env \<Rightarrow> Ihdr \<Rightarrow> (error + Ihdr \<times> decompressed) option" where
  "main env ihdr =
     (case main_parse env of
        None \<Rightarrow> None
      | Some (Inl e) \<Rightarrow> Some (Inl e)
      | Some (Inr (chunkDynamicArray, cursor)) \<Rightarrow> Some (main_decode env ihdr chunkDynamicArray))"

section \<open>A decompressor and a file for the examples\<close>

text \<open>
  The closed examples need some \<open>uncompress\<close>. This one reads the zlib streams whose
  deflate blocks are all stored blocks (zlib's output at level 0) and checks their Adler-32;
  it reports \<open>Z_BUF_ERROR\<close> (-5) when the destination is too small and \<open>Z_DATA_ERROR\<close>
  (-3) for everything else. The theorems about the program hold for every \<open>uncompress\<close>.
\<close>

fun adler_update :: "nat \<times> nat \<Rightarrow> u8 list \<Rightarrow> nat \<times> nat" where
  "adler_update (a, b) [] = (a, b)"
| "adler_update (a, b) (x # xs) =
     adler_update ((a + unat x) mod 65521, (b + (a + unat x) mod 65521) mod 65521) xs"

definition adler32 :: "u8 list \<Rightarrow> nat" where
  "adler32 bytes = (case adler_update (1, 0) bytes of (a, b) \<Rightarrow> b * 65536 + a)"

fun inflate_stored :: "u8 list \<Rightarrow> u8 list \<Rightarrow> (u8 list \<times> u8 list) option" where
  "inflate_stored (h # l0 # l1 # n0 # n1 # rest) out =
     (if h AND 6 \<noteq> 0 then None
      else if NOT l0 \<noteq> n0 then None
      else if NOT l1 \<noteq> n1 then None
      else if length rest < unat l0 + 256 * unat l1 then None
      else if bit h 0
      then Some (out @ take (unat l0 + 256 * unat l1) rest, drop (unat l0 + 256 * unat l1) rest)
      else inflate_stored (drop (unat l0 + 256 * unat l1) rest)
             (out @ take (unat l0 + 256 * unat l1) rest))"
| "inflate_stored _ out = None"

definition uncompress_stored :: "nat \<Rightarrow> u8 list \<Rightarrow> int \<times> nat \<times> u8 list" where
  "uncompress_stored destLen source =
     (case source of
        cmf # flg # body \<Rightarrow>
          if cmf AND 0x0F \<noteq> 8 then (- 3, destLen, [])
          else if (unat cmf * 256 + unat flg) mod 31 \<noteq> 0 then (- 3, destLen, [])
          else if bit flg 5 then (- 3, destLen, [])
          else (case inflate_stored body [] of
                  None \<Rightarrow> (- 3, destLen, [])
                | Some (out, trailer) \<Rightarrow>
                    if destLen < length out then (- 5, destLen, take destLen out)
                    else if length trailer < 4 then (- 3, destLen, out)
                    else if unat (load_u32 False (take 4 trailer)) \<noteq> adler32 out
                    then (- 3, destLen, out)
                    else (Z_OK, length out, out))
      | _ \<Rightarrow> (- 3, destLen, []))"

text \<open>
  A file of 72 bytes: the signature, a header chunk (1 by 1 pixel, bit depth 8, colour type
  2), one image-data chunk (the stored zlib stream of the scanline \<open>0, 255, 0, 0\<close>) and the
  terminator.
\<close>

definition example_png :: "u8 list" where
  "example_png =
     [137, 80, 78, 71, 13, 10, 26, 10,
      0, 0, 0, 13, 73, 72, 68, 82, 0, 0, 0, 1, 0, 0, 0, 1, 8, 2, 0, 0, 0, 144, 119, 83, 222,
      0, 0, 0, 15, 73, 68, 65, 84, 120, 1, 1, 4, 0, 251, 255, 0, 255, 0, 0, 3, 1, 1, 0,
      141, 29, 229, 130,
      0, 0, 0, 0, 73, 69, 78, 68, 174, 66, 96, 130]"

definition example_ihdr_chunk :: Chunk where
  "example_ihdr_chunk =
     \<lparr>dataLength = 13, type = [73, 72, 68, 82, 0],
      data = [0, 0, 0, 1, 0, 0, 0, 1, 8, 2, 0, 0, 0]\<rparr>"

definition example_idat_chunk :: Chunk where
  "example_idat_chunk =
     \<lparr>dataLength = 15, type = [73, 68, 65, 84, 0],
      data = [120, 1, 1, 4, 0, 251, 255, 0, 255, 0, 0, 3, 1, 1, 0]\<rparr>"

definition example_iend_chunk :: Chunk where
  "example_iend_chunk = \<lparr>dataLength = 0, type = [73, 69, 78, 68, 0], data = []\<rparr>"

text \<open>
  A little-endian host with 32-bit \<open>long\<close> and 64-bit \<open>size_t\<close>, as the Microsoft
  compiler has them: \<open>ftell\<close> fails on files a \<open>long\<close> cannot measure, \<open>malloc\<close> never
  fails, \<open>realloc\<close> frees the block when the new size is 0 and leaves it in place
  otherwise, and fresh memory holds \<open>0xCD\<close>.
\<close>

definition example_env :: env where
  "example_env =
     \<lparr>host_le = True, file_bytes = Some example_png, fseek_ok = True,
      ftell_end = (\<lambda>n. if n \<le> 2147483647 then int n else - 1),
      malloc_ok = (\<lambda>n. True), malloc_again_ok = (\<lambda>n. True), realloc_ok = (\<lambda>n. True),
      realloc_keeps = (\<lambda>n. n \<noteq> 0), fresh = (\<lambda>i. 0xCD),
      SIZE_MAX = 18446744073709551615, ULONG_MAX = 4294967295,
      uncompress = uncompress_stored\<rparr>"

section \<open>The wire format\<close>

text \<open>
  The chunk record that starts at offset \<open>off\<close> of a buffer, as the format lays it out:
  the length (4 bytes, most significant first), the type tag (4 bytes), the payload
  (\<open>length\<close> bytes) and the checksum (4 bytes, most significant first). These functions
  read a buffer that is long enough; the theorems say when it is.
\<close>

definition field_length :: "u8 list \<Rightarrow> nat \<Rightarrow> u32" where
  "field_length buffer off = load_u32 False (take 4 (drop off buffer))"

definition field_type :: "u8 list \<Rightarrow> nat \<Rightarrow> u8 list" where
  "field_type buffer off = take 4 (drop (off + 4) buffer)"

definition field_payload :: "u8 list \<Rightarrow> nat \<Rightarrow> u8 list" where
  "field_payload buffer off =
     take (unat (field_length buffer off)) (drop (off + 8) buffer)"

definition field_crc :: "u8 list \<Rightarrow> nat \<Rightarrow> u32" where
  "field_crc buffer off =
     load_u32 False (take 4 (drop (off + 8 + unat (field_length buffer off)) buffer))"

text \<open>
  The bytes of a chunk with a type tag and a payload, its checksum computed over the tag
  followed by the payload, and the \<open>Chunk\<close> that reading it gives.
\<close>

definition encode_chunk :: "u8 list \<times> u8 list \<Rightarrow> u8 list" where
  "encode_chunk c =
     store_u32 False (of_nat (length (snd c))) @ fst c @ snd c
       @ store_u32 False (crc32 (crc32 0 (fst c)) (snd c))"

definition chunk_of :: "u8 list \<times> u8 list \<Rightarrow> Chunk" where
  "chunk_of c = \<lparr>dataLength = of_nat (length (snd c)), type = fst c @ [0], data = snd c\<rparr>"

definition IEND :: "u8 list" where
  "IEND = [0x49, 0x45, 0x4E, 0x44]"

definition IDAT :: "u8 list" where
  "IDAT = [0x49, 0x44, 0x41, 0x54]"

text \<open>A type tag has four bytes; \<open>ordinary\<close> tags are the ones that are not the terminator.\<close>

definition ordinary :: "u8 list \<times> u8 list \<Rightarrow> bool" where
  "ordinary c = (length (fst c) = 4 \<and> fst c \<noteq> IEND)"

text \<open>The three chunks of the example file as tag and payload, and two damaged files.\<close>

definition example_ihdr :: "u8 list \<times> u8 list" where
  "example_ihdr = ([73, 72, 68, 82], [0, 0, 0, 1, 0, 0, 0, 1, 8, 2, 0, 0, 0])"

definition example_idat :: "u8 list \<times> u8 list" where
  "example_idat = (IDAT, [120, 1, 1, 4, 0, 251, 255, 0, 255, 0, 0, 3, 1, 1, 0])"

definition example_iend :: "u8 list \<times> u8 list" where
  "example_iend = (IEND, [])"

text \<open>The example file with one payload byte of the image-data chunk changed.\<close>

definition corrupted_png :: "u8 list" where
  "corrupted_png = example_png[50 := 1]"

text \<open>The example file cut off inside the checksum of the header chunk.\<close>

definition truncated_png :: "u8 list" where
  "truncated_png = take 30 example_png"

text \<open>
  Three states of the storage of \<open>Ihdr ihdr\<close> before \<open>GetIhdrChunkData\<close> writes to it:
  all zero, and the bit depth or the colour type holding \<open>0xCCCCCCCC\<close> (the pattern the
  debug run time of the Microsoft compiler fills the stack with; \<open>fopen_s\<close> and
  \<open>fread_s\<close> are functions of that compiler's library).
\<close>

definition zero_ihdr :: Ihdr where
  "zero_ihdr =
     \<lparr>width = 0, height = 0, bitDepth = 0, colorType = 0, compressionMethod = 0,
      filterMethod = 0, interlaceMethod = 0\<rparr>"

definition stale_bitDepth_ihdr :: Ihdr where
  "stale_bitDepth_ihdr = zero_ihdr\<lparr>bitDepth := 0xCCCCCCCC\<rparr>"

definition stale_colorType_ihdr :: Ihdr where
  "stale_colorType_ihdr = zero_ihdr\<lparr>colorType := 0xCCCCCCCC\<rparr>"

text \<open>A chunk array with two image-data chunks of three bytes each.\<close>

definition two_idat_chunks :: "Chunk list" where
  "two_idat_chunks =
     [\<lparr>dataLength = 3, type = DATA_CHUNK_TYPE, data = [1, 2, 3]\<rparr>,
      \<lparr>dataLength = 3, type = DATA_CHUNK_TYPE, data = [4, 5, 6]\<rparr>]"

text \<open>
  The legal pairs of bit depth and colour type of the format, on the bytes of the payload:
  colour type 0 with the depths 1, 2, 4, 8, 16; colour types 2, 4 and 6 with 8 and 16;
  colour type 3 with 1, 2, 4 and 8.
\<close>

definition legal_pair :: "u8 \<Rightarrow> u8 \<Rightarrow> bool" where
  "legal_pair bd ct =
     ((ct = 0 \<and> bd \<in> {1, 2, 4, 8, 16})
      \<or> (ct \<in> {2, 4, 6} \<and> bd \<in> {8, 16})
      \<or> (ct = 3 \<and> bd \<in> {1, 2, 4, 8}))"

section \<open>Basic facts\<close>

lemma memcpy_from_Inr: "off + n \<le> length buffer \<Longrightarrow> memcpy_from buffer off n = Inr (take n (drop off buffer))"
  by (simp add: memcpy_from_def)

lemma memcpy_from_Inl: "length buffer < off + n \<Longrightarrow> memcpy_from buffer off n = Inl OutOfBoundsRead"
  by (simp add: memcpy_from_def)

lemma IsLittleEndian_host: "IsLittleEndian env = host_le env"
  by (simp add: IsLittleEndian_def store_u32_def Let_def)

lemma byte_ranges:
  fixes n :: nat
  assumes "n < 32"
  obtains "n < 8" | "8 \<le> n" "n < 16" | "16 \<le> n" "n < 24" | "24 \<le> n" "n < 32"
  using assms by linarith

lemma byte_masks:
  "(0xFF000000 :: u32) = push_bit 24 (mask 8)" "(0x00FF0000 :: u32) = push_bit 16 (mask 8)"
  "(0x0000FF00 :: u32) = push_bit 8 (mask 8)" "(0xFF :: u32) = mask 8"
  by (simp_all add: mask_eq_exp_minus_1)

lemma ToLittleEndian_load4:
  "ToLittleEndian (load_u32 True [a, b, c, d]) = load_u32 False [a, b, c, d]"
proof (rule bit_word_eqI)
  fix n :: nat
  assume "n < LENGTH(32)"
  then have "n < 32" by simp
  then show "bit (ToLittleEndian (load_u32 True [a, b, c, d])) n = bit (load_u32 False [a, b, c, d]) n"
    unfolding ToLittleEndian_def byte_masks
    by (cases n rule: byte_ranges) (auto simp: load_u32_def bit_simps dest: bit_imp_le_length)
qed

lemma length4: "length bs = 4 \<Longrightarrow> \<exists>a b c d. bs = [a, b, c, d]"
  by (cases bs; simp; cases "tl bs"; simp; cases "tl (tl bs)"; simp; cases "tl (tl (tl bs))"; simp)

lemma host_load:
  assumes "length bs = 4"
  shows "(if IsLittleEndian env then ToLittleEndian (load_u32 (host_le env) bs)
          else load_u32 (host_le env) bs) = load_u32 False bs"
proof -
  from assms obtain a b c d where "bs = [a, b, c, d]" using length4 by blast
  then show ?thesis by (simp add: IsLittleEndian_host ToLittleEndian_load4)
qed

lemma load_store_be: "load_u32 False (store_u32 False w) = w"
proof (rule bit_word_eqI)
  fix n :: nat
  assume "n < LENGTH(32)"
  then have "n < 32" by simp
  then show "bit (load_u32 False (store_u32 False w)) n = bit w n"
    by (cases n rule: byte_ranges) (auto simp: load_u32_def store_u32_def bit_simps)
qed

lemma length_store_u32: "length (store_u32 le w) = 4"
  by (simp add: store_u32_def Let_def)

lemma unat_plus_small:
  fixes c :: u32
  assumes "unat c + n < 2 ^ 32"
  shows "unat (c + of_nat n) = unat c + n"
  using assms by (simp add: unat_word_ariths unat_of_nat)

lemma take4_type: "length t = 4 \<Longrightarrow> take CHUNK_TYPE_LENGTH (t @ [0]) = t"
  by (simp add: CHUNK_TYPE_LENGTH_def)

lemma crc32_empty: "crc32 0 [] = 0"
  by (simp add: crc32_def)

lemma ReadChunk_in_bounds:
  assumes len: "length buffer < 2 ^ 32"
    and inb: "unat cursor + 12 + unat (field_length buffer (unat cursor)) \<le> length buffer"
  shows "ReadChunk env buffer cursor (IsLittleEndian env) =
     (if \<not> malloc_ok env (unat (field_length buffer (unat cursor)))
      then Inl UnableToAllocateChunkData
      else if field_crc buffer (unat cursor)
                \<noteq> crc32 (crc32 0 (field_type buffer (unat cursor)))
                     (field_payload buffer (unat cursor))
      then Inl ChecksumFailed
      else Inr (\<lparr>dataLength = field_length buffer (unat cursor),
                 type = field_type buffer (unat cursor) @ [0],
                 data = field_payload buffer (unat cursor)\<rparr>,
                cursor + 12 + field_length buffer (unat cursor)))"
proof -
  define n where "n = unat cursor"
  define l where "l = field_length buffer n"
  have b1: "n + 4 \<le> length buffer" and b2: "n + 4 + 4 \<le> length buffer"
    and b3: "n + 8 + unat l \<le> length buffer" and b4: "n + 8 + unat l + 4 \<le> length buffer"
    using inb by (simp_all add: n_def l_def)
  have c1: "unat (cursor + of_nat CHUNK_DATA_LENGTH) = n + 4"
    using b1 len unat_plus_small [of cursor 4] by (simp add: n_def CHUNK_DATA_LENGTH_def)
  have c2: "unat (cursor + of_nat CHUNK_DATA_LENGTH + of_nat CHUNK_TYPE_LENGTH) = n + 8"
    using b2 len c1 unat_plus_small [of "cursor + of_nat CHUNK_DATA_LENGTH" 4]
    by (simp add: CHUNK_TYPE_LENGTH_def)
  have c3: "unat (cursor + of_nat CHUNK_DATA_LENGTH + of_nat CHUNK_TYPE_LENGTH + l) = n + 8 + unat l"
    using b3 len c2 unat_plus_small [of "cursor + of_nat CHUNK_DATA_LENGTH + of_nat CHUNK_TYPE_LENGTH" "unat l"]
    by simp
  have m1: "memcpy_from buffer (unat cursor) CHUNK_DATA_LENGTH = Inr (take 4 (drop n buffer))"
    using b1 by (simp add: memcpy_from_Inr n_def CHUNK_DATA_LENGTH_def)
  have l1: "length (take 4 (drop n buffer)) = 4"
    using b1 by simp
  have d1: "(if IsLittleEndian env then ToLittleEndian (load_u32 (host_le env) (take 4 (drop n buffer)))
             else load_u32 (host_le env) (take 4 (drop n buffer))) = l"
    using host_load [OF l1] by (simp add: l_def field_length_def)
  have m2: "memcpy_from buffer (n + 4) CHUNK_TYPE_LENGTH = Inr (field_type buffer n)"
    using b2 by (simp add: memcpy_from_Inr CHUNK_TYPE_LENGTH_def field_type_def)
  have l2: "length (field_type buffer n) = 4"
    using b2 by (simp add: field_type_def)
  have m3: "memcpy_from buffer (n + 8) (unat l) = Inr (field_payload buffer n)"
    using b3 by (simp add: memcpy_from_Inr field_payload_def l_def)
  have m4: "memcpy_from buffer (n + 8 + unat l) CHUNK_CRC_LENGTH
              = Inr (take 4 (drop (n + 8 + unat l) buffer))"
    using b4 by (simp add: memcpy_from_Inr CHUNK_CRC_LENGTH_def)
  have l4: "length (take 4 (drop (n + 8 + unat l) buffer)) = 4"
    using b4 by simp
  have d4: "(if IsLittleEndian env
             then ToLittleEndian (load_u32 (host_le env) (take 4 (drop (n + 8 + unat l) buffer)))
             else load_u32 (host_le env) (take 4 (drop (n + 8 + unat l) buffer)))
            = field_crc buffer n"
    using host_load [OF l4] by (simp add: l_def field_crc_def)
  have e: "cursor + of_nat CHUNK_DATA_LENGTH + of_nat CHUNK_TYPE_LENGTH + l + of_nat CHUNK_CRC_LENGTH
            = cursor + 12 + l"
    by (simp add: CHUNK_DATA_LENGTH_def CHUNK_TYPE_LENGTH_def CHUNK_CRC_LENGTH_def)
  show ?thesis
    unfolding ReadChunk_def Let_def m1 sum.case d1 c1 m2 c2 m3 c3 m4 d4 e
      take4_type [OF l2] crc32_empty
    by (simp add: n_def [symmetric] l_def [symmetric])
qed


lemma encode_chunk_length:
  "length (fst c) = 4 \<Longrightarrow> length (encode_chunk c) = 12 + length (snd c)"
  by (simp add: encode_chunk_def length_store_u32)

lemma unat_of_nat_len:
  "n < 2 ^ 32 \<Longrightarrow> unat (of_nat n :: u32) = n"
  by (simp add: unat_of_nat)

lemma encoded_fields:
  assumes "length (fst c) = 4" and "length (snd c) < 2 ^ 32"
  shows "field_length (pre @ encode_chunk c @ post) (length pre) = of_nat (length (snd c))"
    and "field_type (pre @ encode_chunk c @ post) (length pre) = fst c"
    and "field_payload (pre @ encode_chunk c @ post) (length pre) = snd c"
    and "field_crc (pre @ encode_chunk c @ post) (length pre) = crc32 (crc32 0 (fst c)) (snd c)"
proof -
  show l: "field_length (pre @ encode_chunk c @ post) (length pre) = of_nat (length (snd c))"
    by (simp add: field_length_def encode_chunk_def length_store_u32 load_store_be)
  show "field_type (pre @ encode_chunk c @ post) (length pre) = fst c"
    using assms(1) by (simp add: field_type_def encode_chunk_def length_store_u32)
  show "field_payload (pre @ encode_chunk c @ post) (length pre) = snd c"
    unfolding field_payload_def l
    using assms by (simp add: unat_of_nat_len encode_chunk_def length_store_u32)
  show "field_crc (pre @ encode_chunk c @ post) (length pre) = crc32 (crc32 0 (fst c)) (snd c)"
    unfolding field_crc_def l
    using assms
    by (simp add: unat_of_nat_len encode_chunk_def length_store_u32 load_store_be)
qed

lemma ReadChunk_encoded:
  assumes "length (fst c) = 4"
    and "buffer = pre @ encode_chunk c @ post"
    and "length buffer < 2 ^ 32"
    and "unat cursor = length pre"
    and "malloc_ok env (length (snd c))"
  shows "ReadChunk env buffer cursor (IsLittleEndian env)
           = Inr (chunk_of c, cursor + of_nat (length (encode_chunk c)))"
proof -
  have p: "length (snd c) < 2 ^ 32"
    using assms(1,2,3) by (simp add: encode_chunk_length)
  have fl: "field_length buffer (unat cursor) = of_nat (length (snd c))"
    and ft: "field_type buffer (unat cursor) = fst c"
    and fp: "field_payload buffer (unat cursor) = snd c"
    and fc: "field_crc buffer (unat cursor) = crc32 (crc32 0 (fst c)) (snd c)"
    unfolding assms(2) assms(4) by (rule encoded_fields [OF assms(1) p])+
  have inb: "unat cursor + 12 + unat (field_length buffer (unat cursor)) \<le> length buffer"
    unfolding fl using assms(1,2,4) p by (simp add: unat_of_nat_len encode_chunk_length)
  have rc: "ReadChunk env buffer cursor (IsLittleEndian env) =
     (if \<not> malloc_ok env (unat (field_length buffer (unat cursor)))
      then Inl UnableToAllocateChunkData
      else if field_crc buffer (unat cursor)
                \<noteq> crc32 (crc32 0 (field_type buffer (unat cursor)))
                     (field_payload buffer (unat cursor))
      then Inl ChecksumFailed
      else Inr (\<lparr>dataLength = field_length buffer (unat cursor),
                 type = field_type buffer (unat cursor) @ [0],
                 data = field_payload buffer (unat cursor)\<rparr>,
                cursor + 12 + field_length buffer (unat cursor)))"
    by (rule ReadChunk_in_bounds [OF assms(3) inb])
  show ?thesis
    unfolding rc fl ft fp fc
    using assms(1,5) p by (simp add: unat_of_nat_len chunk_of_def encode_chunk_length)
qed

lemma strcmp_tag:
  assumes "length t = 4"
  shows "strcmp (t @ [0]) LAST_CHUNK_TYPE_SIGNATURE = 0 \<longleftrightarrow> t = IEND"
proof -
  from assms obtain a b c d where t: "t = [a, b, c, d]" using length4 by blast
  show ?thesis
    unfolding t by (auto simp: LAST_CHUNK_TYPE_SIGNATURE_def IEND_def)
qed

lemma strcmp_idat:
  assumes "length t = 4"
  shows "strcmp (t @ [0]) DATA_CHUNK_TYPE = 0 \<longleftrightarrow> t = IDAT"
proof -
  from assms obtain a b c d where t: "t = [a, b, c, d]" using length4 by blast
  show ?thesis
    unfolding t by (auto simp: DATA_CHUNK_TYPE_def IDAT_def)
qed

lemma main_loop_step:
  assumes "ReadChunk env buffer cursor le = Inr (chunk, cursor')" and "realloc_ok env (Suc (length arr))"
  shows "main_loop env buffer le cursor arr =
           (if strcmp (type chunk) LAST_CHUNK_TYPE_SIGNATURE = 0
            then Some (Inr (arr @ [chunk], cursor'))
            else main_loop env buffer le cursor' (arr @ [chunk]))"
  using assms by (subst main_loop.simps) (simp add: AppendChunk_def)

lemma main_loop_skip:
  assumes "list_all ordinary cs"
    and "\<forall>n. malloc_ok env n" and "\<forall>n. realloc_ok env n"
    and "length buffer < 2 ^ 32"
    and "buffer = pre @ concat (map encode_chunk cs) @ post"
    and "unat cursor = length pre"
  shows "main_loop env buffer (IsLittleEndian env) cursor arr
           = main_loop env buffer (IsLittleEndian env)
               (cursor + of_nat (length (concat (map encode_chunk cs)))) (arr @ map chunk_of cs)"
  using assms
proof (induction cs arbitrary: pre cursor arr)
  case Nil
  then show ?case by simp
next
  case (Cons c cs)
  have t: "length (fst c) = 4" "fst c \<noteq> IEND"
    using Cons.prems(1) by (simp_all add: ordinary_def)
  have b: "buffer = pre @ encode_chunk c @ (concat (map encode_chunk cs) @ post)"
    using Cons.prems(5) by simp
  have m: "malloc_ok env (length (snd c))" using Cons.prems(2) by simp
  have r: "ReadChunk env buffer cursor (IsLittleEndian env)
             = Inr (chunk_of c, cursor + of_nat (length (encode_chunk c)))"
    by (rule ReadChunk_encoded [OF t(1) b Cons.prems(4) Cons.prems(6) m])
  have s: "strcmp (type (chunk_of c)) LAST_CHUNK_TYPE_SIGNATURE \<noteq> 0"
    using t by (simp add: chunk_of_def strcmp_tag)
  have ra: "realloc_ok env (Suc (length arr))" using Cons.prems(3) by simp
  have step: "main_loop env buffer (IsLittleEndian env) cursor arr
      = main_loop env buffer (IsLittleEndian env) (cursor + of_nat (length (encode_chunk c)))
          (arr @ [chunk_of c])"
    using s by (simp add: main_loop_step [OF r ra])
  have b': "buffer = (pre @ encode_chunk c) @ concat (map encode_chunk cs) @ post"
    using b by simp
  have u: "unat (cursor + of_nat (length (encode_chunk c))) = length (pre @ encode_chunk c)"
  proof -
    have "unat cursor + length (encode_chunk c) < 2 ^ 32"
      using Cons.prems(4) Cons.prems(6) b by simp
    then show ?thesis
      using Cons.prems(6) by (simp add: unat_plus_small)
  qed
  have l: "list_all ordinary cs" using Cons.prems(1) by simp
  have ih: "main_loop env buffer (IsLittleEndian env) (cursor + of_nat (length (encode_chunk c)))
              (arr @ [chunk_of c])
     = main_loop env buffer (IsLittleEndian env)
         (cursor + of_nat (length (encode_chunk c)) + of_nat (length (concat (map encode_chunk cs))))
         ((arr @ [chunk_of c]) @ map chunk_of cs)"
    by (rule Cons.IH [OF l Cons.prems(2) Cons.prems(3) Cons.prems(4) b' u])
  show ?case
    unfolding step ih by (simp add: add.assoc)
qed


lemma main_loop_ReadChunk_Inl:
  "ReadChunk env buffer cursor le = Inl e \<Longrightarrow> main_loop env buffer le cursor arr = Some (Inl e)"
  by (subst main_loop.simps) simp

lemmas field_defs = field_length_def field_type_def field_payload_def field_crc_def
lemmas crc_defs = crc32_def crc_byte_def crc_bit_def

lemma GetFileSize_Some:
  "file_bytes env = Some bytes \<Longrightarrow> fseek_ok env \<Longrightarrow>
     GetFileSize env = Inr (word_of_int (ftell_end env (length bytes)))"
  by (simp add: GetFileSize_def)

lemma sint_small: "n < 2 ^ 31 \<Longrightarrow> sint (of_nat n :: s32) = int n"
  by (simp add: signed_of_nat signed_take_bit_int_eq_self)

lemma small_not_minus_one: "n < 2 ^ 31 \<Longrightarrow> (of_nat n :: s32) \<noteq> - 1"
proof
  assume n: "n < 2 ^ 31" and "(of_nat n :: s32) = - 1"
  then have "sint (of_nat n :: s32) = sint (- 1 :: s32)" by simp
  then show False using sint_small [OF n] by simp
qed

lemma size_t_small: "n < 2 ^ 31 \<Longrightarrow> size_t_of_int env (of_nat n) = n"
  by (simp add: size_t_of_int_def sint_small)

lemma FillBuffer_long:
  assumes "file_bytes env = Some bytes" and "8 \<le> length bytes" and "length bytes < 2 ^ 31"
  shows "FillBuffer env (of_nat (length bytes)) =
           (if pngSignature \<noteq> take 8 bytes then Inl InvalidPngSignature else Inr (bytes, 8))"
  using assms
  by (auto simp: FillBuffer_def size_t_small memcpy_from_def PNG_SIGNATURE_LENGTH_def)

lemma main_parse_long:
  assumes "file_bytes env = Some bytes" and "fseek_ok env" and "malloc_ok env (length bytes)"
    and "8 \<le> length bytes"
    and "ftell_end env (length bytes) = int (length bytes)" and "length bytes < 2 ^ 31"
  shows "main_parse env =
           (if pngSignature \<noteq> take 8 bytes then Some (Inl InvalidPngSignature)
            else main_loop env bytes (IsLittleEndian env) 8 [])"
  using assms
  by (simp add: main_parse_def GetFileSize_Some small_not_minus_one size_t_small
      FillBuffer_long [OF assms(1,4,6)])

text \<open>When \<open>ftell\<close> fails, \<open>main\<close> stops at line 331, before it allocates the buffer.\<close>

lemma main_parse_ftell_fails:
  assumes "file_bytes env = Some bytes" and "fseek_ok env"
    and "ftell_end env (length bytes) = - 1"
  shows "main_parse env = Some (Inl FileSizeIsMinusOne)"
  using assms by (simp add: main_parse_def GetFileSize_def)

lemma encode_example_ihdr:
  "encode_chunk example_ihdr =
     [0, 0, 0, 13, 73, 72, 68, 82, 0, 0, 0, 1, 0, 0, 0, 1, 8, 2, 0, 0, 0, 144, 119, 83, 222]"
proof -
  have c: "crc32 (crc32 0 [73, 72, 68, 82]) [0, 0, 0, 1, 0, 0, 0, 1, 8, 2, 0, 0, 0] = 2423739358"
    by (simp add: crc_defs)
  show ?thesis
    unfolding encode_chunk_def example_ihdr_def fst_conv snd_conv c
    by (simp add: store_u32_def)
qed

lemma encode_example_idat:
  "encode_chunk example_idat =
     [0, 0, 0, 15, 73, 68, 65, 84, 120, 1, 1, 4, 0, 251, 255, 0, 255, 0, 0, 3, 1, 1, 0,
      141, 29, 229, 130]"
proof -
  have c: "crc32 (crc32 0 [73, 68, 65, 84]) [120, 1, 1, 4, 0, 251, 255, 0, 255, 0, 0, 3, 1, 1, 0]
             = 2367546754"
    by (simp add: crc_defs)
  show ?thesis
    unfolding encode_chunk_def example_idat_def IDAT_def fst_conv snd_conv c
    by (simp add: store_u32_def)
qed

lemma encode_example_iend:
  "encode_chunk example_iend = [0, 0, 0, 0, 73, 69, 78, 68, 174, 66, 96, 130]"
proof -
  have c: "crc32 (crc32 0 [73, 69, 78, 68]) [] = 2923585666"
    by (simp add: crc_defs)
  show ?thesis
    unfolding encode_chunk_def example_iend_def IEND_def fst_conv snd_conv c
    by (simp add: store_u32_def)
qed

lemma example_png_layout:
  "example_png = pngSignature @ concat (map encode_chunk [example_ihdr, example_idat])
                   @ encode_chunk (IEND, []) @ []"
  using encode_example_iend
  by (simp add: encode_example_ihdr encode_example_idat example_iend_def
      example_png_def pngSignature_def)

lemmas rc_defs = memcpy_from_def ReadChunk_def CHUNK_DATA_LENGTH_def CHUNK_TYPE_LENGTH_def
  CHUNK_CRC_LENGTH_def load_u32_def ToLittleEndian_def

lemma corrupted_png_eq:
  "corrupted_png =
     [137, 80, 78, 71, 13, 10, 26, 10,
      0, 0, 0, 13, 73, 72, 68, 82, 0, 0, 0, 1, 0, 0, 0, 1, 8, 2, 0, 0, 0, 144, 119, 83, 222,
      0, 0, 0, 15, 73, 68, 65, 84, 120, 1, 1, 4, 0, 251, 255, 0, 255, 1, 0, 3, 1, 1, 0,
      141, 29, 229, 130,
      0, 0, 0, 0, 73, 69, 78, 68, 174, 66, 96, 130]"
  by (simp add: corrupted_png_def example_png_def)

lemma ReadChunk_short8:
  assumes "length buffer < 2 ^ 32" and "length buffer < unat cursor + 8"
  shows "ReadChunk env buffer cursor le = Inl OutOfBoundsRead"
proof (cases "length buffer < unat cursor + 4")
  case True
  then show ?thesis
    by (simp add: ReadChunk_def memcpy_from_def CHUNK_DATA_LENGTH_def)
next
  case False
  then have b1: "unat cursor + 4 \<le> length buffer" by simp
  have c1: "unat (cursor + of_nat CHUNK_DATA_LENGTH) = unat cursor + 4"
    using b1 assms(1) unat_plus_small [of cursor 4] by (simp add: CHUNK_DATA_LENGTH_def)
  have m1: "memcpy_from buffer (unat cursor) CHUNK_DATA_LENGTH = Inr (take 4 (drop (unat cursor) buffer))"
    using b1 by (simp add: memcpy_from_Inr CHUNK_DATA_LENGTH_def)
  have m2: "memcpy_from buffer (unat cursor + 4) CHUNK_TYPE_LENGTH = Inl OutOfBoundsRead"
    using assms(2) by (simp add: memcpy_from_Inl CHUNK_TYPE_LENGTH_def)
  show ?thesis
    unfolding ReadChunk_def Let_def m1 sum.case c1 m2 by simp
qed

lemma ReadChunk_long8:
  assumes len: "length buffer < 2 ^ 32" and b2: "unat cursor + 8 \<le> length buffer"
    and short: "length buffer < unat cursor + 12 + unat (field_length buffer (unat cursor))"
  shows "ReadChunk env buffer cursor (IsLittleEndian env) =
           (if \<not> malloc_ok env (unat (field_length buffer (unat cursor)))
            then Inl UnableToAllocateChunkData else Inl OutOfBoundsRead)"
proof -
  define n where "n = unat cursor"
  define l where "l = field_length buffer n"
  have b1: "n + 4 \<le> length buffer" and b2': "n + 4 + 4 \<le> length buffer"
    using b2 by (simp_all add: n_def)
  have c1: "unat (cursor + of_nat CHUNK_DATA_LENGTH) = n + 4"
    using b1 len unat_plus_small [of cursor 4] by (simp add: n_def CHUNK_DATA_LENGTH_def)
  have c2: "unat (cursor + of_nat CHUNK_DATA_LENGTH + of_nat CHUNK_TYPE_LENGTH) = n + 8"
    using b2' len c1 unat_plus_small [of "cursor + of_nat CHUNK_DATA_LENGTH" 4]
    by (simp add: CHUNK_TYPE_LENGTH_def)
  have m1: "memcpy_from buffer (unat cursor) CHUNK_DATA_LENGTH = Inr (take 4 (drop n buffer))"
    using b1 by (simp add: memcpy_from_Inr n_def CHUNK_DATA_LENGTH_def)
  have l1: "length (take 4 (drop n buffer)) = 4"
    using b1 by simp
  have d1: "(if IsLittleEndian env then ToLittleEndian (load_u32 (host_le env) (take 4 (drop n buffer)))
             else load_u32 (host_le env) (take 4 (drop n buffer))) = l"
    using host_load [OF l1] by (simp add: l_def field_length_def)
  have m2: "memcpy_from buffer (n + 4) CHUNK_TYPE_LENGTH = Inr (field_type buffer n)"
    using b2' by (simp add: memcpy_from_Inr CHUNK_TYPE_LENGTH_def field_type_def)
  have rest: "(case memcpy_from buffer (n + 8) (unat l) of
                 Inl e \<Rightarrow> Inl e
               | Inr data1 \<Rightarrow>
                   (case memcpy_from buffer
                           (unat (cursor + of_nat CHUNK_DATA_LENGTH + of_nat CHUNK_TYPE_LENGTH + l))
                           CHUNK_CRC_LENGTH of
                      Inl e \<Rightarrow> Inl e
                    | Inr crcBytes \<Rightarrow> f data1 crcBytes)) = Inl OutOfBoundsRead" for f :: "u8 list \<Rightarrow> u8 list \<Rightarrow> error + Chunk \<times> u32"
  proof (cases "length buffer < n + 8 + unat l")
    case True
    then show ?thesis by (simp add: memcpy_from_Inl)
  next
    case False
    then have b3: "n + 8 + unat l \<le> length buffer" by simp
    have c3: "unat (cursor + of_nat CHUNK_DATA_LENGTH + of_nat CHUNK_TYPE_LENGTH + l) = n + 8 + unat l"
      using b3 len c2
        unat_plus_small [of "cursor + of_nat CHUNK_DATA_LENGTH + of_nat CHUNK_TYPE_LENGTH" "unat l"]
      by simp
    have m4: "memcpy_from buffer (n + 8 + unat l) CHUNK_CRC_LENGTH = Inl OutOfBoundsRead"
      using short by (simp add: memcpy_from_Inl CHUNK_CRC_LENGTH_def n_def l_def)
    show ?thesis
      using b3 by (simp add: memcpy_from_Inr c3 m4)
  qed
  show ?thesis
    unfolding ReadChunk_def Let_def m1 sum.case d1 c1 m2 c2 rest
    by (simp add: n_def [symmetric] l_def [symmetric])
qed


lemma main_parse_layout:
  assumes "file_bytes env = Some buffer" and "fseek_ok env"
    and "\<forall>n. malloc_ok env n" and "\<forall>n. realloc_ok env n"
    and "buffer = pngSignature @ concat (map encode_chunk cs) @ encode_chunk (IEND, p) @ rest"
    and "list_all ordinary cs"
    and "length buffer < 2 ^ 31"
    and "ftell_end env (length buffer) = int (length buffer)"
  shows "main_parse env =
           Some (Inr (map chunk_of (cs @ [(IEND, p)]), of_nat (length buffer - length rest)))"
proof -
  let ?le = "IsLittleEndian env"
  let ?n = "length (concat (map encode_chunk cs))"
  have l8: "8 \<le> length buffer" and t8: "take 8 buffer = pngSignature"
    using assms(5) by (simp_all add: pngSignature_def)
  have m: "malloc_ok env (length buffer)" using assms(3) by simp
  have l32: "length buffer < 2 ^ 32" using assms(7) by simp
  have p1: "main_parse env = main_loop env buffer ?le 8 []"
    using main_parse_long [OF assms(1,2) m l8 assms(8,7)] t8 by simp
  have u8: "unat (8 :: u32) = length pngSignature"
    by (simp add: pngSignature_def)
  have b: "buffer = pngSignature @ concat (map encode_chunk cs) @ (encode_chunk (IEND, p) @ rest)"
    using assms(5) by simp
  have p2: "main_loop env buffer ?le 8 [] = main_loop env buffer ?le (8 + of_nat ?n) (map chunk_of cs)"
    using main_loop_skip [OF assms(6,3,4) l32 b u8, of "[]"] by simp
  have b': "buffer = (pngSignature @ concat (map encode_chunk cs)) @ encode_chunk (IEND, p) @ rest"
    using assms(5) by simp
  have u: "unat (8 + of_nat ?n :: u32) = length (pngSignature @ concat (map encode_chunk cs))"
  proof -
    have "unat (8 :: u32) + ?n < 2 ^ 32"
      using l32 b by (simp add: pngSignature_def)
    then show ?thesis
      using unat_plus_small [of 8 ?n] by (simp add: pngSignature_def)
  qed
  have t4: "length (fst (IEND, p)) = 4" by (simp add: IEND_def)
  have mp: "malloc_ok env (length (snd (IEND, p)))" using assms(3) by simp
  have r: "ReadChunk env buffer (8 + of_nat ?n) ?le
             = Inr (chunk_of (IEND, p), 8 + of_nat ?n + of_nat (length (encode_chunk (IEND, p))))"
    by (rule ReadChunk_encoded [OF t4 b' l32 u mp])
  have ra: "realloc_ok env (Suc (length (map chunk_of cs)))" using assms(4) by simp
  have "length IEND = 4" by (simp add: IEND_def)
  from strcmp_tag [OF this] have "strcmp (IEND @ [0]) LAST_CHUNK_TYPE_SIGNATURE = 0"
    by blast
  then have s: "strcmp (type (chunk_of (IEND, p))) LAST_CHUNK_TYPE_SIGNATURE = 0"
    by (simp add: chunk_of_def)
  have c: "(8 + of_nat ?n + of_nat (length (encode_chunk (IEND, p))) :: u32)
             = of_nat (length buffer - length rest)"
    unfolding assms(5) by (simp add: pngSignature_def)
  have p3: "main_loop env buffer ?le (8 + of_nat ?n) (map chunk_of cs)
      = Some (Inr (map chunk_of cs @ [chunk_of (IEND, p)], of_nat (length buffer - length rest)))"
    using s by (simp add: main_loop_step [OF r ra] c)
  show ?thesis
    unfolding p1 p2 p3 by simp
qed

lemma example_main_parse:
  "main_parse example_env
     = Some (Inr ([example_ihdr_chunk, example_idat_chunk, example_iend_chunk], 72))"
proof -
  have h1: "file_bytes example_env = Some example_png" by (simp add: example_env_def)
  have h2: "fseek_ok example_env" by (simp add: example_env_def)
  have h3: "\<forall>n. malloc_ok example_env n" by (simp add: example_env_def)
  have h4: "\<forall>n. realloc_ok example_env n" by (simp add: example_env_def)
  have h6: "list_all ordinary [example_ihdr, example_idat]"
    by (simp add: ordinary_def example_ihdr_def example_idat_def IDAT_def IEND_def)
  have h7: "length example_png < 2 ^ 31" by (simp add: example_png_def)
  have h8: "ftell_end example_env (length example_png) = int (length example_png)"
    by (simp add: example_env_def example_png_def)
  have c: "map chunk_of ([example_ihdr, example_idat] @ [(IEND, [])])
             = [example_ihdr_chunk, example_idat_chunk, example_iend_chunk]"
    by (simp add: chunk_of_def example_ihdr_def example_idat_def IDAT_def IEND_def
        example_ihdr_chunk_def example_idat_chunk_def example_iend_chunk_def)
  have n: "(of_nat (length example_png - length ([] :: u8 list)) :: u32) = 72"
    by (simp add: example_png_def)
  show ?thesis
    using main_parse_layout [OF h1 h2 h3 h4 example_png_layout h6 h7 h8]
    unfolding c n by simp
qed

section \<open>Claims about the chunk reader\<close>

text \<open>
  Claim C5. A chunk record whose length field is 0 and whose stored checksum is the CRC-32 of
  its type tag is read without error: the chunk has \<open>dataLength = 0\<close> and an empty
  payload, and the cursor has moved over the 12 bytes of the record. The record lies inside
  the buffer, and \<open>malloc(0)\<close> returns a block (the C library decides that; where it
  returns \<open>NULL\<close> the program reports an allocation failure).
\<close>

theorem ReadChunk_empty_chunk:
  assumes "length buffer < 2 ^ 32"
    and "unat cursor + 12 \<le> length buffer"
    and "field_length buffer (unat cursor) = 0"
    and "malloc_ok env 0"
    and "field_crc buffer (unat cursor) = crc32 (crc32 0 (field_type buffer (unat cursor))) []"
  shows "ReadChunk env buffer cursor (IsLittleEndian env) =
           Inr (\<lparr>dataLength = 0, type = field_type buffer (unat cursor) @ [0], data = []\<rparr>,
                cursor + 12)"
proof -
  have inb: "unat cursor + 12 + unat (field_length buffer (unat cursor)) \<le> length buffer"
    using assms(2,3) by simp
  have p: "field_payload buffer (unat cursor) = []"
    using assms(3) by (simp add: field_payload_def)
  show ?thesis
    using assms(3,4,5) by (simp add: ReadChunk_in_bounds [OF assms(1) inb] p)
qed

theorem ReadChunk_empty_chunk_witness:
  "length example_png < 2 ^ 32 \<and> unat (60 :: u32) + 12 \<le> length example_png
   \<and> field_length example_png (unat (60 :: u32)) = 0 \<and> malloc_ok example_env 0
   \<and> ReadChunk example_env example_png 60 (IsLittleEndian example_env)
        = Inr (example_iend_chunk, 72)"
proof -
  have h1: "length example_png < 2 ^ 32" by (simp add: example_png_def)
  have h2: "unat (60 :: u32) + 12 \<le> length example_png" by (simp add: example_png_def)
  have h3: "field_length example_png (unat (60 :: u32)) = 0"
    by (simp add: field_defs example_png_def load_u32_def)
  have h4: "malloc_ok example_env 0" by (simp add: example_env_def)
  have t: "field_type example_png (unat (60 :: u32)) = [73, 69, 78, 68]"
    by (simp add: field_defs example_png_def)
  have c: "crc32 (crc32 0 [73, 69, 78, 68]) [] = 2923585666"
    by (simp add: crc_defs)
  have h5: "field_crc example_png (unat (60 :: u32))
              = crc32 (crc32 0 (field_type example_png (unat (60 :: u32)))) []"
    unfolding t c by (simp add: field_defs example_png_def load_u32_def)
  have t': "field_type example_png 60 = [73, 69, 78, 68]"
    using t by simp
  show ?thesis
    using ReadChunk_empty_chunk [OF h1 h2 h3 h4 h5] h1 h2 h3 h4
    by (simp add: t' example_iend_chunk_def)
qed


section \<open>Claims about the walk over the container\<close>

text \<open>
  Claim C4. A well-formed file is the signature, any number of chunks whose type tag is
  not the terminator's, a chunk with the terminator's tag, and then anything at all
  (\<open>rest\<close>). On such a file the walk of \<open>main\<close> ends and returns the chunks in the
  order of the file, the first one being the chunk right after the 8 bytes of the
  signature and the last one the terminator chunk; the cursor stops right behind the
  terminator chunk, so nothing of \<open>rest\<close> is read and the result does not depend on it.
  The allocator is one that does not fail, and the file is one whose size \<open>fileSize\<close>
  holds: it has fewer than \<open>2^31\<close> bytes and \<open>ftell\<close> reports them.
\<close>

theorem main_parse_wellformed:
  assumes "file_bytes env = Some buffer" and "fseek_ok env"
    and "\<forall>n. malloc_ok env n" and "\<forall>n. realloc_ok env n"
    and "buffer = pngSignature @ concat (map encode_chunk cs) @ encode_chunk (IEND, p) @ rest"
    and "list_all ordinary cs"
    and "length buffer < 2 ^ 31"
    and "ftell_end env (length buffer) = int (length buffer)"
  shows "main_parse env =
           Some (Inr (map chunk_of (cs @ [(IEND, p)]), of_nat (length buffer - length rest)))"
  by (rule main_parse_layout [OF assms])

theorem main_parse_wellformed_witness:
  "list_all ordinary [example_ihdr, example_idat] \<and> length example_png < 2 ^ 31
   \<and> main_parse example_env
        = Some (Inr ([example_ihdr_chunk, example_idat_chunk, example_iend_chunk], 72))"
proof -
  have h1: "file_bytes example_env = Some example_png" by (simp add: example_env_def)
  have h2: "fseek_ok example_env" by (simp add: example_env_def)
  have h3: "\<forall>n. malloc_ok example_env n" by (simp add: example_env_def)
  have h4: "\<forall>n. realloc_ok example_env n" by (simp add: example_env_def)
  have h6: "list_all ordinary [example_ihdr, example_idat]"
    by (simp add: ordinary_def example_ihdr_def example_idat_def IDAT_def IEND_def)
  have h7: "length example_png < 2 ^ 31" by (simp add: example_png_def)
  have h8: "ftell_end example_env (length example_png) = int (length example_png)"
    by (simp add: example_env_def example_png_def)
  have c: "map chunk_of ([example_ihdr, example_idat] @ [(IEND, [])])
             = [example_ihdr_chunk, example_idat_chunk, example_iend_chunk]"
    by (simp add: chunk_of_def example_ihdr_def example_idat_def IDAT_def IEND_def
        example_ihdr_chunk_def example_idat_chunk_def example_iend_chunk_def)
  have n: "(of_nat (length example_png - length ([] :: u8 list)) :: u32) = 72"
    by (simp add: example_png_def)
  show ?thesis
    using main_parse_wellformed [OF h1 h2 h3 h4 example_png_layout h6 h7 h8] h6 h7
    unfolding c n by simp
qed


text \<open>
  Claim C2. A chunk whose stored checksum differs from the CRC-32 of its type tag followed
  by its payload makes \<open>ReadChunk\<close> fail with the checksum error, and the walk stops
  there with that error whatever chunks it had collected: \<open>main\<close> returns \<open>-1\<close> and no
  chunk array, not even the chunks read before. The third part says so for the whole walk
  of a file in which well-formed chunks precede the damaged one, a file of fewer than
  \<open>2^31\<close> bytes whose size \<open>ftell\<close> reports. The chunk lies inside the buffer and its
  payload could be allocated.
\<close>

theorem checksum_mismatch_aborts:
  assumes "length buffer < 2 ^ 32"
    and "unat cursor + 12 + unat (field_length buffer (unat cursor)) \<le> length buffer"
    and "malloc_ok env (unat (field_length buffer (unat cursor)))"
    and "field_crc buffer (unat cursor)
           \<noteq> crc32 (crc32 0 (field_type buffer (unat cursor))) (field_payload buffer (unat cursor))"
  shows "ReadChunk env buffer cursor (IsLittleEndian env) = Inl ChecksumFailed
       \<and> (\<forall>chunkDynamicArray.
             main_loop env buffer (IsLittleEndian env) cursor chunkDynamicArray
               = Some (Inl ChecksumFailed))
       \<and> (\<forall>cs rest.
             file_bytes env = Some buffer \<and> fseek_ok env
             \<and> (\<forall>n. malloc_ok env n) \<and> (\<forall>n. realloc_ok env n)
             \<and> buffer = pngSignature @ concat (map encode_chunk cs) @ rest
             \<and> list_all ordinary cs
             \<and> unat cursor = 8 + length (concat (map encode_chunk cs))
             \<and> length buffer < 2 ^ 31
             \<and> ftell_end env (length buffer) = int (length buffer)
             \<longrightarrow> main_parse env = Some (Inl ChecksumFailed))"
proof -
  let ?le = "IsLittleEndian env"
  have r: "ReadChunk env buffer cursor ?le = Inl ChecksumFailed"
    using assms(3,4) by (simp add: ReadChunk_in_bounds [OF assms(1,2)])
  have l: "main_loop env buffer ?le cursor arr = Some (Inl ChecksumFailed)" for arr
    using r by (rule main_loop_ReadChunk_Inl)
  have p: "main_parse env = Some (Inl ChecksumFailed)"
    if f: "file_bytes env = Some buffer" and s: "fseek_ok env"
      and m: "\<forall>n. malloc_ok env n" and ra: "\<forall>n. realloc_ok env n"
      and b: "buffer = pngSignature @ concat (map encode_chunk cs) @ rest"
      and o: "list_all ordinary cs"
      and u: "unat cursor = 8 + length (concat (map encode_chunk cs))"
      and l31: "length buffer < 2 ^ 31"
      and ft: "ftell_end env (length buffer) = int (length buffer)"
    for cs rest
  proof -
    have l8: "8 \<le> length buffer" and t8: "take 8 buffer = pngSignature"
      using b by (simp_all add: pngSignature_def)
    have mb: "malloc_ok env (length buffer)" using m by simp
    have p1: "main_parse env = main_loop env buffer ?le 8 []"
      using main_parse_long [OF f s mb l8 ft l31] t8 by simp
    have u8: "unat (8 :: u32) = length pngSignature"
      by (simp add: pngSignature_def)
    have c: "cursor = 8 + of_nat (length (concat (map encode_chunk cs)))"
    proof -
      have "of_nat (unat cursor) = (of_nat (8 + length (concat (map encode_chunk cs))) :: u32)"
        using u by simp
      then show ?thesis by simp
    qed
    have p2: "main_loop env buffer ?le 8 [] = main_loop env buffer ?le cursor (map chunk_of cs)"
      using main_loop_skip [OF o m ra assms(1) b u8, of "[]"] c by simp
    show ?thesis
      unfolding p1 p2 by (rule l)
  qed
  show ?thesis
    using r l p by blast
qed

theorem checksum_mismatch_aborts_witness:
  "length corrupted_png < 2 ^ 32
   \<and> list_all ordinary [example_ihdr]
   \<and> ReadChunk (example_env\<lparr>file_bytes := Some corrupted_png\<rparr>) corrupted_png 33
         (IsLittleEndian (example_env\<lparr>file_bytes := Some corrupted_png\<rparr>))
        = Inl ChecksumFailed
   \<and> main_parse (example_env\<lparr>file_bytes := Some corrupted_png\<rparr>) = Some (Inl ChecksumFailed)"
proof -
  let ?env = "example_env\<lparr>file_bytes := Some corrupted_png\<rparr>"
  have h1: "length corrupted_png < 2 ^ 32" by (simp add: corrupted_png_eq)
  have fl: "field_length corrupted_png 33 = 15"
    by (simp add: field_length_def corrupted_png_eq load_u32_def)
  have h2: "unat (33 :: u32) + 12 + unat (field_length corrupted_png (unat (33 :: u32)))
              \<le> length corrupted_png"
    by (simp add: fl) (simp add: corrupted_png_eq)
  have h3: "malloc_ok ?env (unat (field_length corrupted_png (unat (33 :: u32))))"
    by (simp add: example_env_def)
  have ft: "field_type corrupted_png 33 = [73, 68, 65, 84]"
    by (simp add: field_type_def corrupted_png_eq)
  have fp: "field_payload corrupted_png 33 = [120, 1, 1, 4, 0, 251, 255, 0, 255, 1, 0, 3, 1, 1, 0]"
    by (simp add: field_payload_def fl) (simp add: corrupted_png_eq)
  have fc: "field_crc corrupted_png 33 = 2367546754"
    by (simp add: field_crc_def fl) (simp add: corrupted_png_eq load_u32_def)
  have c: "crc32 (crc32 0 [73, 68, 65, 84]) [120, 1, 1, 4, 0, 251, 255, 0, 255, 1, 0, 3, 1, 1, 0]
             \<noteq> 2367546754"
    by (simp add: crc_defs)
  have h4: "field_crc corrupted_png (unat (33 :: u32))
              \<noteq> crc32 (crc32 0 (field_type corrupted_png (unat (33 :: u32))))
                   (field_payload corrupted_png (unat (33 :: u32)))"
    using c by (simp add: ft fp fc)
  have g1: "file_bytes ?env = Some corrupted_png" by simp
  have g2: "fseek_ok ?env" by (simp add: example_env_def)
  have g3: "\<forall>n. malloc_ok ?env n" by (simp add: example_env_def)
  have g4: "\<forall>n. realloc_ok ?env n" by (simp add: example_env_def)
  have g5: "corrupted_png = pngSignature @ concat (map encode_chunk [example_ihdr])
              @ drop 33 corrupted_png"
    by (simp add: encode_example_ihdr) (simp add: corrupted_png_eq pngSignature_def)
  have g6: "list_all ordinary [example_ihdr]"
    by (simp add: ordinary_def example_ihdr_def IEND_def)
  have g7: "unat (33 :: u32) = 8 + length (concat (map encode_chunk [example_ihdr]))"
    by (simp add: encode_example_ihdr)
  have g8: "length corrupted_png < 2 ^ 31" by (simp add: corrupted_png_eq)
  have g9: "ftell_end ?env (length corrupted_png) = int (length corrupted_png)"
    by (simp add: example_env_def corrupted_png_eq)
  from checksum_mismatch_aborts [OF h1 h2 h3 h4]
  have "ReadChunk ?env corrupted_png 33 (IsLittleEndian ?env) = Inl ChecksumFailed"
    and "main_parse ?env = Some (Inl ChecksumFailed)"
    using g1 g2 g3 g4 g5 g6 g7 g8 g9 by blast+
  then show ?thesis
    using h1 g6 by simp
qed


text \<open>
  Claim C1 says that a chunk record that is cut off is reported as a truncation error and
  that no byte behind the end of the buffer is read. \<open>ReadChunk\<close> is never told how long
  the buffer is and compares nothing with its length. In the file \<open>truncated_png\<close> the
  header chunk lacks the last three bytes of its checksum: the \<open>memcpy\<close> of line 123
  reads four bytes from offset 29 of a buffer of 30 bytes.
\<close>

theorem truncated_file_read_past_end:
  "ReadChunk (example_env\<lparr>file_bytes := Some truncated_png\<rparr>) truncated_png 8
      (IsLittleEndian (example_env\<lparr>file_bytes := Some truncated_png\<rparr>)) = Inl OutOfBoundsRead
   \<and> main_parse (example_env\<lparr>file_bytes := Some truncated_png\<rparr>) = Some (Inl OutOfBoundsRead)"
proof -
  let ?env = "example_env\<lparr>file_bytes := Some truncated_png\<rparr>"
  have t: "truncated_png =
     [137, 80, 78, 71, 13, 10, 26, 10,
      0, 0, 0, 13, 73, 72, 68, 82, 0, 0, 0, 1, 0, 0, 0, 1, 8, 2, 0, 0, 0, 144]"
    by (simp add: truncated_png_def example_png_def)
  have le: "IsLittleEndian ?env = True"
    by (simp add: IsLittleEndian_host example_env_def)
  have r: "ReadChunk ?env truncated_png 8 True = Inl OutOfBoundsRead"
    by (simp add: rc_defs t example_env_def)
  have f: "file_bytes ?env = Some truncated_png" by simp
  have s: "fseek_ok ?env" by (simp add: example_env_def)
  have m: "malloc_ok ?env (length truncated_png)" by (simp add: example_env_def)
  have l8: "8 \<le> length truncated_png" by (simp add: t)
  have ft: "ftell_end ?env (length truncated_png) = int (length truncated_png)"
    by (simp add: example_env_def t)
  have l31: "length truncated_png < 2 ^ 31" by (simp add: t)
  have "main_parse ?env = main_loop ?env truncated_png True 8 []"
    unfolding main_parse_long [OF f s m l8 ft l31] le by (simp add: t pngSignature_def)
  also have "\<dots> = Some (Inl OutOfBoundsRead)"
    using r by (rule main_loop_ReadChunk_Inl)
  finally show ?thesis
    using r le by simp
qed


text \<open>
  Claim C1 as the code has it. \<open>ReadChunk\<close> reads behind the end of the buffer exactly when
  fewer than 8 bytes are left at the cursor, or the payload could be allocated and fewer
  than 12 bytes plus the declared length are left; when that many bytes are left every
  read is inside the buffer. The walk of \<open>main\<close> ends with that read. A file that runs
  out (fewer than 8 bytes left) behind well-formed chunks none of which is the terminator
  ends the walk in this way: there is no error for the missing terminator. That file has
  fewer than \<open>2^31\<close> bytes, and \<open>ftell\<close> reports its size.
\<close>

theorem ReadChunk_no_bounds_check:
  assumes "length buffer < 2 ^ 32"
  shows "(ReadChunk env buffer cursor (IsLittleEndian env) = Inl OutOfBoundsRead \<longleftrightarrow>
            length buffer < unat cursor + 8
            \<or> (malloc_ok env (unat (field_length buffer (unat cursor)))
                \<and> length buffer < unat cursor + 12 + unat (field_length buffer (unat cursor))))
       \<and> (ReadChunk env buffer cursor (IsLittleEndian env) = Inl OutOfBoundsRead \<longrightarrow>
            (\<forall>chunkDynamicArray.
               main_loop env buffer (IsLittleEndian env) cursor chunkDynamicArray
                 = Some (Inl OutOfBoundsRead)))
       \<and> (\<forall>cs rest.
             file_bytes env = Some buffer \<and> fseek_ok env
             \<and> (\<forall>n. malloc_ok env n) \<and> (\<forall>n. realloc_ok env n)
             \<and> buffer = pngSignature @ concat (map encode_chunk cs) @ rest
             \<and> list_all ordinary cs \<and> length rest < 8
             \<and> length buffer < 2 ^ 31
             \<and> ftell_end env (length buffer) = int (length buffer)
             \<longrightarrow> main_parse env = Some (Inl OutOfBoundsRead))"
proof -
  let ?le = "IsLittleEndian env"
  let ?l = "unat (field_length buffer (unat cursor))"
  have a: "ReadChunk env buffer cursor ?le = Inl OutOfBoundsRead \<longleftrightarrow>
            length buffer < unat cursor + 8
            \<or> (malloc_ok env ?l \<and> length buffer < unat cursor + 12 + ?l)"
  proof (cases "length buffer < unat cursor + 8")
    case True
    then show ?thesis by (simp add: ReadChunk_short8 [OF assms])
  next
    case False
    then have b2: "unat cursor + 8 \<le> length buffer" by simp
    show ?thesis
    proof (cases "length buffer < unat cursor + 12 + ?l")
      case True
      then show ?thesis
        using False by (simp add: ReadChunk_long8 [OF assms b2])
    next
      case False
      then have inb: "unat cursor + 12 + ?l \<le> length buffer" by simp
      show ?thesis
        using False b2 by (simp add: ReadChunk_in_bounds [OF assms inb])
    qed
  qed
  have b: "main_loop env buffer ?le cursor arr = Some (Inl OutOfBoundsRead)"
    if "ReadChunk env buffer cursor ?le = Inl OutOfBoundsRead" for arr
    using that by (rule main_loop_ReadChunk_Inl)
  have c: "main_parse env = Some (Inl OutOfBoundsRead)"
    if f: "file_bytes env = Some buffer" and s: "fseek_ok env"
      and m: "\<forall>n. malloc_ok env n" and ra: "\<forall>n. realloc_ok env n"
      and bf: "buffer = pngSignature @ concat (map encode_chunk cs) @ rest"
      and o: "list_all ordinary cs" and r8: "length rest < 8"
      and l31: "length buffer < 2 ^ 31"
      and ft: "ftell_end env (length buffer) = int (length buffer)"
    for cs rest
  proof -
    let ?n = "length (concat (map encode_chunk cs))"
    have l8: "8 \<le> length buffer" and t8: "take 8 buffer = pngSignature"
      using bf by (simp_all add: pngSignature_def)
    have mb: "malloc_ok env (length buffer)" using m by simp
    have p1: "main_parse env = main_loop env buffer ?le 8 []"
      using main_parse_long [OF f s mb l8 ft l31] t8 by simp
    have u8: "unat (8 :: u32) = length pngSignature"
      by (simp add: pngSignature_def)
    have p2: "main_loop env buffer ?le 8 [] = main_loop env buffer ?le (8 + of_nat ?n) (map chunk_of cs)"
      using main_loop_skip [OF o m ra assms bf u8, of "[]"] by simp
    have u: "unat (8 + of_nat ?n :: u32) = 8 + ?n"
    proof -
      have "unat (8 :: u32) + ?n < 2 ^ 32"
        using assms bf by (simp add: pngSignature_def)
      then show ?thesis
        using unat_plus_small [of 8 ?n] by simp
    qed
    have sh: "length buffer < unat (8 + of_nat ?n :: u32) + 8"
      unfolding u using r8 bf by (simp add: pngSignature_def)
    have "ReadChunk env buffer (8 + of_nat ?n) ?le = Inl OutOfBoundsRead"
      by (rule ReadChunk_short8 [OF assms sh])
    then have p3: "main_loop env buffer ?le (8 + of_nat ?n) (map chunk_of cs)
                    = Some (Inl OutOfBoundsRead)"
      by (rule main_loop_ReadChunk_Inl)
    show ?thesis
      unfolding p1 p2 p3 by simp
  qed
  show ?thesis
    using a b c by blast
qed

theorem ReadChunk_no_bounds_check_witness:
  "length pngSignature < 2 ^ 32
   \<and> ReadChunk (example_env\<lparr>file_bytes := Some pngSignature\<rparr>) pngSignature 8
         (IsLittleEndian (example_env\<lparr>file_bytes := Some pngSignature\<rparr>))
        = Inl OutOfBoundsRead
   \<and> main_parse (example_env\<lparr>file_bytes := Some pngSignature\<rparr>) = Some (Inl OutOfBoundsRead)"
proof -
  let ?env = "example_env\<lparr>file_bytes := Some pngSignature\<rparr>"
  have h: "length pngSignature < 2 ^ 32" by (simp add: pngSignature_def)
  have s: "length pngSignature < unat (8 :: u32) + 8" by (simp add: pngSignature_def)
  have g: "file_bytes ?env = Some pngSignature \<and> fseek_ok ?env
           \<and> (\<forall>n. malloc_ok ?env n) \<and> (\<forall>n. realloc_ok ?env n)
           \<and> pngSignature = pngSignature @ concat (map encode_chunk []) @ []
           \<and> list_all ordinary [] \<and> length ([] :: u8 list) < 8
           \<and> length pngSignature < 2 ^ 31
           \<and> ftell_end ?env (length pngSignature) = int (length pngSignature)"
    by (simp add: example_env_def pngSignature_def)
  from ReadChunk_no_bounds_check [OF h, of ?env 8]
  have "ReadChunk ?env pngSignature 8 (IsLittleEndian ?env) = Inl OutOfBoundsRead"
    and "main_parse ?env = Some (Inl OutOfBoundsRead)"
    using s g by blast+
  then show ?thesis
    using h by simp
qed


text \<open>
  Claim C3 says that every buffer that does not start with the signature is refused with
  the signature error. The empty file does not start with the signature, and
  \<open>FillBuffer\<close> refuses it one step earlier: \<open>fread_s\<close> reads no element and line 57
  reports that the reading went wrong.
\<close>

theorem empty_file_not_signature_error:
  "take 8 ([] :: u8 list) \<noteq> pngSignature
   \<and> main_parse (example_env\<lparr>file_bytes := Some []\<rparr>) = Some (Inl ReadingWentWrong)"
  by (simp add: pngSignature_def main_parse_def GetFileSize_def FillBuffer_def
      size_t_of_int_def example_env_def)


text \<open>
  Claim C3 as the code has it, for a file of at least 8 and fewer than \<open>2^31\<close> bytes
  (that can be opened and measured and for which the buffer can be allocated; a longer
  file does not fit the \<open>int\<close> of line 41). If its first 8 bytes are not the signature,
  \<open>FillBuffer\<close> fails with the signature error and \<open>main\<close> returns it without entering
  the chunk loop; if they are, \<open>FillBuffer\<close> sets the cursor to 8 and \<open>main\<close> is the
  chunk loop started at offset 8 with no chunks.
\<close>

theorem FillBuffer_signature:
  assumes "file_bytes env = Some bytes" and "fseek_ok env" and "malloc_ok env (length bytes)"
    and "8 \<le> length bytes"
    and "ftell_end env (length bytes) = int (length bytes)" and "length bytes < 2 ^ 31"
  shows "(take 8 bytes \<noteq> pngSignature \<longrightarrow>
            FillBuffer env (of_nat (length bytes)) = Inl InvalidPngSignature
            \<and> main_parse env = Some (Inl InvalidPngSignature))
       \<and> (take 8 bytes = pngSignature \<longrightarrow>
            FillBuffer env (of_nat (length bytes)) = Inr (bytes, 8)
            \<and> main_parse env = main_loop env bytes (IsLittleEndian env) 8 [])"
  using FillBuffer_long [OF assms(1,4,6)] main_parse_long [OF assms] by auto

theorem FillBuffer_signature_witness:
  "8 \<le> length (example_png[0 := 0]) \<and> length (example_png[0 := 0]) < 2 ^ 31
   \<and> take 8 (example_png[0 := 0]) \<noteq> pngSignature
   \<and> main_parse (example_env\<lparr>file_bytes := Some (example_png[0 := 0])\<rparr>)
        = Some (Inl InvalidPngSignature)
   \<and> take 8 example_png = pngSignature
   \<and> FillBuffer example_env (of_nat (length example_png)) = Inr (example_png, 8)"
proof -
  let ?bad = "example_png[0 := 0]"
  let ?env = "example_env\<lparr>file_bytes := Some ?bad\<rparr>"
  have f: "file_bytes ?env = Some ?bad" by simp
  have s: "fseek_ok ?env" by (simp add: example_env_def)
  have m: "malloc_ok ?env (length ?bad)" by (simp add: example_env_def)
  have l: "8 \<le> length ?bad" by (simp add: example_png_def)
  have ft: "ftell_end ?env (length ?bad) = int (length ?bad)"
    by (simp add: example_env_def example_png_def)
  have u: "length ?bad < 2 ^ 31" by (simp add: example_png_def)
  have t: "take 8 ?bad \<noteq> pngSignature" by (simp add: example_png_def pngSignature_def)
  have f': "file_bytes example_env = Some example_png" by (simp add: example_env_def)
  have s': "fseek_ok example_env" by (simp add: example_env_def)
  have m': "malloc_ok example_env (length example_png)" by (simp add: example_env_def)
  have l': "8 \<le> length example_png" by (simp add: example_png_def)
  have ft': "ftell_end example_env (length example_png) = int (length example_png)"
    by (simp add: example_env_def example_png_def)
  have u': "length example_png < 2 ^ 31" by (simp add: example_png_def)
  have t': "take 8 example_png = pngSignature" by (simp add: example_png_def pngSignature_def)
  show ?thesis
    using FillBuffer_signature [OF f s m l ft u] FillBuffer_signature [OF f' s' m' l' ft' u']
      l u t t'
    by simp
qed

section \<open>Claims about the header\<close>

lemmas ihdr_defs = GetIhdrChunkData_def memcpy_from_def IHDR_LENGTH_def IHDR_WIDTH_BYTES_def
  IHDR_HEIGHT_BYTES_def IHDR_OTHER_BYTES_def load_u32_def ToLittleEndian_def memcpy1_u32_def
  pair_ok_def GRAYSCALE_def TRUECOLOR_def INDEXED_COLOR_def GRAYSCALE_WITH_ALPHA_def
  TRUECOLOR_WITH_ALPHA_def

text \<open>
  What the switch of \<open>GetIhdrChunkData\<close> decides when nothing stale is in the way: on a
  little-endian host, with the fields \<open>bitDepth\<close> and \<open>colorType\<close> zero before the call,
  a payload of 13 bytes or more with non-zero width and height and valid methods is
  accepted exactly for the legal pairs, and the three errors are told apart as the format
  says.
\<close>

lemma ucast_u8_inj: "(ucast (b :: u8) :: u32) = ucast (k :: u8) \<longleftrightarrow> b = k"
proof
  assume "(ucast b :: u32) = ucast k"
  then have "unat (ucast b :: u32) = unat (ucast k :: u32)" by simp
  moreover have "unat x < 2 ^ 32" for x :: u8
    using unsigned_less [of x, where ?'a = nat] by simp
  ultimately have "unat b = unat k"
    by (simp add: unsigned_ucast_eq take_bit_nat_eq_self)
  then show "b = k" by (simp add: word_unat_eq_iff)
qed simp

lemma ucast_u8_numerals:
  "(ucast (b :: u8) :: u32) = 0 \<longleftrightarrow> b = 0"
  "(ucast (b :: u8) :: u32) = 1 \<longleftrightarrow> b = 1"
  "(ucast (b :: u8) :: u32) = 2 \<longleftrightarrow> b = 2"
  "(ucast (b :: u8) :: u32) = 3 \<longleftrightarrow> b = 3"
  "(ucast (b :: u8) :: u32) = 4 \<longleftrightarrow> b = 4"
  "(ucast (b :: u8) :: u32) = 6 \<longleftrightarrow> b = 6"
  "(ucast (b :: u8) :: u32) = 8 \<longleftrightarrow> b = 8"
  "(ucast (b :: u8) :: u32) = 16 \<longleftrightarrow> b = 16"
  using ucast_u8_inj [of b 0] ucast_u8_inj [of b 1] ucast_u8_inj [of b 2] ucast_u8_inj [of b 3]
    ucast_u8_inj [of b 4] ucast_u8_inj [of b 6] ucast_u8_inj [of b 8] ucast_u8_inj [of b 16]
  by simp_all

lemma memcpy1_zero: "memcpy1_u32 True 0 b = ucast b"
  by (simp add: memcpy1_u32_def)

lemma pair_ok_ucast:
  assumes "bd \<in> {1, 2, 4, 8, 16}" and "ct \<in> {0, 2, 3, 4, 6}"
  shows "pair_ok (ucast (ct :: u8)) (ucast (bd :: u8)) \<longleftrightarrow> legal_pair bd ct"
  using assms
  by (auto simp: pair_ok_def legal_pair_def ucast_u8_numerals TRUECOLOR_def INDEXED_COLOR_def
      GRAYSCALE_WITH_ALPHA_def TRUECOLOR_WITH_ALPHA_def)

lemma byte_at:
  "n < length xs \<Longrightarrow> memcpy_from xs n IHDR_OTHER_BYTES = Inr [xs ! n]"
  by (simp add: memcpy_from_def IHDR_OTHER_BYTES_def take_Suc_conv_app_nth hd_drop_conv_nth
      take_Suc Cons_nth_drop_Suc [symmetric])

lemma GetIhdrChunkData_zeroed:
  assumes le: "host_le env"
    and z: "bitDepth ihdr = 0" "colorType ihdr = 0"
    and len: "13 \<le> unat (dataLength c)" "13 \<le> length (data c)"
    and w: "load_u32 True (take 4 (data c)) \<noteq> 0"
    and h: "load_u32 True (take 4 (drop 4 (data c))) \<noteq> 0"
    and m: "data c ! 10 = 0" "data c ! 11 = 0" "data c ! 12 = 0 \<or> data c ! 12 = 1"
  shows "GetIhdrChunkData env c ihdr (IsLittleEndian env) =
     (if data c ! 8 \<notin> {1, 2, 4, 8, 16} then Inl InvalidIhdrBitDepth
      else if data c ! 9 \<notin> {0, 2, 3, 4, 6} then Inl InvalidIhdrColorType
      else if \<not> legal_pair (data c ! 8) (data c ! 9) then Inl IhdrInvalidPair
      else Inr (ihdr\<lparr>width := load_u32 False (take 4 (data c)),
                     height := load_u32 False (take 4 (drop 4 (data c))),
                     bitDepth := ucast (data c ! 8), colorType := ucast (data c ! 9),
                     compressionMethod := 0, filterMethod := 0,
                     interlaceMethod := data c ! 12\<rparr>))"
proof -
  have l4: "length (take 4 (data c)) = 4" "length (take 4 (drop 4 (data c))) = 4"
    using len by simp_all
  have sw: "ToLittleEndian (load_u32 True (take 4 (data c))) = load_u32 False (take 4 (data c))"
    "ToLittleEndian (load_u32 True (take 4 (drop 4 (data c))))
       = load_u32 False (take 4 (drop 4 (data c)))"
    using host_load [OF l4(1), of env] host_load [OF l4(2), of env] le
    by (simp_all add: IsLittleEndian_host)
  have m4: "memcpy_from (data c) 0 IHDR_WIDTH_BYTES = Inr (take 4 (data c))"
    "memcpy_from (data c) 4 IHDR_HEIGHT_BYTES = Inr (take 4 (drop 4 (data c)))"
    using len by (simp_all add: memcpy_from_def IHDR_WIDTH_BYTES_def IHDR_HEIGHT_BYTES_def)
  have b: "memcpy_from (data c) 8 IHDR_OTHER_BYTES = Inr [data c ! 8]"
    "memcpy_from (data c) 9 IHDR_OTHER_BYTES = Inr [data c ! 9]"
    "memcpy_from (data c) 10 IHDR_OTHER_BYTES = Inr [data c ! 10]"
    "memcpy_from (data c) 11 IHDR_OTHER_BYTES = Inr [data c ! 11]"
    "memcpy_from (data c) 12 IHDR_OTHER_BYTES = Inr [data c ! 12]"
    using len by (simp_all add: byte_at)
  have bd: "(ucast (data c ! 8) \<noteq> (1 :: u32) \<and> ucast (data c ! 8) \<noteq> (2 :: u32)
             \<and> ucast (data c ! 8) \<noteq> (4 :: u32) \<and> ucast (data c ! 8) \<noteq> (8 :: u32)
             \<and> ucast (data c ! 8) \<noteq> (16 :: u32)) \<longleftrightarrow> data c ! 8 \<notin> {1, 2, 4, 8, 16}"
    by (simp add: ucast_u8_numerals)
  have ct: "(ucast (data c ! 9) \<noteq> GRAYSCALE \<and> ucast (data c ! 9) \<noteq> TRUECOLOR
             \<and> ucast (data c ! 9) \<noteq> INDEXED_COLOR \<and> ucast (data c ! 9) \<noteq> GRAYSCALE_WITH_ALPHA
             \<and> ucast (data c ! 9) \<noteq> TRUECOLOR_WITH_ALPHA) \<longleftrightarrow> data c ! 9 \<notin> {0, 2, 3, 4, 6}"
    by (simp add: ucast_u8_numerals GRAYSCALE_def TRUECOLOR_def INDEXED_COLOR_def
        GRAYSCALE_WITH_ALPHA_def TRUECOLOR_WITH_ALPHA_def)
  show ?thesis
    using len(1) w h m le z pair_ok_ucast [of "data c ! 8" "data c ! 9"]
    unfolding GetIhdrChunkData_def Let_def m4 b sum.case IsLittleEndian_host
    by (auto simp add: IHDR_LENGTH_def sw memcpy1_zero bd ct simp del: insert_iff)
qed


text \<open>
  Claim C6 says that a header with a legal pair of bit depth and colour type is accepted.
  The example header has bit depth 8 and colour type 2. Line 210 copies one byte into the
  four-byte field \<open>bitDepth\<close> and line 211 compares the whole field; when the other three
  bytes were not zero before the call, the field is not 8 and the header is refused.
\<close>

theorem legal_pair_rejected_on_stale_bitDepth:
  "GetIhdrChunkData example_env example_ihdr_chunk stale_bitDepth_ihdr (IsLittleEndian example_env)
     = Inl InvalidIhdrBitDepth"
  by (simp add: ihdr_defs IsLittleEndian_host example_env_def example_ihdr_chunk_def
      stale_bitDepth_ihdr_def zero_ihdr_def)


text \<open>
  Claim C10 says that the outcome of the header validation is determined by the payload.
  The same header chunk is accepted when the storage of \<open>ihdr\<close> held zeros and refused
  when the field \<open>colorType\<close> held something else: line 217 writes one of its four bytes
  and line 218 compares all four.
\<close>

theorem header_outcome_depends_on_stale_bytes:
  "GetIhdrChunkData example_env example_ihdr_chunk zero_ihdr (IsLittleEndian example_env)
     = Inr \<lparr>width = 1, height = 1, bitDepth = 8, colorType = 2, compressionMethod = 0,
            filterMethod = 0, interlaceMethod = 0\<rparr>
   \<and> GetIhdrChunkData example_env example_ihdr_chunk stale_colorType_ihdr
         (IsLittleEndian example_env)
     = Inl InvalidIhdrColorType"
  by (simp add: ihdr_defs IsLittleEndian_host example_env_def example_ihdr_chunk_def
      stale_colorType_ihdr_def zero_ihdr_def)


section \<open>Claims about the image data\<close>

lemma idat_loop_no_idat:
  "list_all (\<lambda>c. strcmp (type c) DATA_CHUNK_TYPE \<noteq> 0) cs \<Longrightarrow>
     idat_loop env cs src idx sz = Inr (src, idx, sz)"
  by (induction cs) simp_all



text \<open>
  With a single image-data chunk the slip in the index has no effect: the buffer handed
  to \<open>uncompress\<close> is the payload of that chunk.
\<close>

lemma idat_loop_skip:
  "list_all (\<lambda>c. strcmp (type c) DATA_CHUNK_TYPE \<noteq> 0) pre \<Longrightarrow>
     idat_loop env (pre @ cs) src idx sz = idat_loop env cs src idx sz"
  by (induction pre) simp_all

lemma map_memcpy_to: "map (memcpy_to mem 0 bytes) [0..<length bytes] = bytes"
  by (rule nth_equalityI) (simp_all add: memcpy_to_def)

lemma single_idat_handed:
  assumes "list_all (\<lambda>c. strcmp (type c) DATA_CHUNK_TYPE \<noteq> 0) pre"
    and "list_all (\<lambda>c. strcmp (type c) DATA_CHUNK_TYPE \<noteq> 0) post"
    and "strcmp (type c) DATA_CHUNK_TYPE = 0"
    and "length (data c) = unat (dataLength c)"
    and "length (data c) \<le> ULONG_MAX env"
  shows "handed_to_uncompress env (pre @ c # post) (length (pre @ c # post)) = Inr (data c)"
proof -
  have m: "memcpy_from (data c) 0 (unat (dataLength c)) = Inr (data c)"
    using assms(4) by (simp add: memcpy_from_def)
  have "idat_loop env (pre @ c # post) (fresh env) 0 0
          = idat_loop env (c # post) (fresh env) 0 0"
    by (rule idat_loop_skip [OF assms(1)])
  also have "\<dots> = idat_loop env post (memcpy_to (fresh env) 0 (data c)) 1 (length (data c))"
    using assms(3,4,5) by (simp add: m)
  also have "\<dots> = Inr (memcpy_to (fresh env) 0 (data c), 1, length (data c))"
    by (rule idat_loop_no_idat [OF assms(2)])
  finally show ?thesis
    by (simp add: handed_to_uncompress_def map_memcpy_to)
qed


text \<open>
  Claim C7 says that the buffer handed to the decompressor is the concatenation of the
  payloads of the image-data chunks. With two image-data chunks of three bytes the second
  payload is copied to offset 1, not 3: line 298 adds one to \<open>compressedSourceIndex\<close>
  where line 297 adds the length of the chunk to \<open>compressedSize\<close>. The six bytes handed
  to \<open>uncompress\<close> are the first byte of the first payload, the second payload, and two
  bytes that were never written.
\<close>

theorem second_idat_overwrites_first:
  "handed_to_uncompress example_env two_idat_chunks 2 = Inr [1, 4, 5, 6, 0xCD, 0xCD]"
  by (simp add: handed_to_uncompress_def two_idat_chunks_def DATA_CHUNK_TYPE_def
      memcpy_from_def memcpy_to_def example_env_def upt_rec)





lemma example_header_accepted:
  "GetIhdrChunkData example_env example_ihdr_chunk zero_ihdr (IsLittleEndian example_env)
     = Inr \<lparr>width = 1, height = 1, bitDepth = 8, colorType = 2, compressionMethod = 0,
            filterMethod = 0, interlaceMethod = 0\<rparr>"
  by (simp add: ihdr_defs IsLittleEndian_host example_env_def example_ihdr_chunk_def
      zero_ihdr_def)

lemma example_handed:
  "handed_to_uncompress example_env [example_ihdr_chunk, example_idat_chunk, example_iend_chunk] 3
     = Inr [120, 1, 1, 4, 0, 251, 255, 0, 255, 0, 0, 3, 1, 1, 0]"
  by (simp add: handed_to_uncompress_def example_ihdr_chunk_def example_idat_chunk_def
      example_iend_chunk_def DATA_CHUNK_TYPE_def memcpy_from_def memcpy_to_def
      example_env_def upt_rec)

lemma example_inflate:
  "uncompress_stored 4294967295 [120, 1, 1, 4, 0, 251, 255, 0, 255, 0, 0, 3, 1, 1, 0]
     = (0, 4, [0, 255, 0, 0])"
  by (simp add: uncompress_stored_def adler32_def load_u32_def Z_OK_def)

text \<open>
  Whenever \<open>DecompressIdatChuncks\<close> returns 0, the caller's pointer is the one it passed.
\<close>

lemma DecompressIdatChuncks_pointer_unchanged:
  "DecompressIdatChuncks env chunkDynamicArray chunkArraySize uncompressedDestination
       uncompressedSize = Inr d
   \<Longrightarrow> caller_uncompressedDestination d = uncompressedDestination"
  by (auto simp: DecompressIdatChuncks_def split: if_splits sum.splits prod.splits)

text \<open>
  Claim C9 says that the caller receives the bytes the decompressor produced. On the
  example file \<open>main\<close> gets through the walk and the header,
  \<open>DecompressIdatChuncks\<close> returns 0 and \<open>uncompress\<close> has written the four
  bytes of the scanline, but into the block that line 303 assigned to the function's own
  parameter. The variable of \<open>main\<close> (line 388) is what it was before the call, a pointer
  that was never assigned; only the length, written through \<open>uncompressedSize\<close>, has
  reached \<open>main\<close>, whose lines 406 to 409 then read through that pointer.
\<close>

theorem inflated_bytes_do_not_reach_main:
  "main example_env zero_ihdr
     = Some (Inr (\<lparr>width = 1, height = 1, bitDepth = 8, colorType = 2, compressionMethod = 0,
                    filterMethod = 0, interlaceMethod = 0\<rparr>,
                  \<lparr>caller_uncompressedDestination = None, caller_uncompressedSize = 4,
                    local_uncompressedDestination = [0, 255, 0, 0]\<rparr>))"
proof -
  have u: "uncompress example_env = uncompress_stored" "ULONG_MAX example_env = 4294967295"
    "malloc_ok example_env n" "malloc_again_ok example_env n"
    "realloc_keeps example_env n = (n \<noteq> 0)" for n
    by (simp_all add: example_env_def)
  have d: "DecompressIdatChuncks example_env
             [example_ihdr_chunk, example_idat_chunk, example_iend_chunk] 3 None 4294967295
           = Inr \<lparr>caller_uncompressedDestination = None, caller_uncompressedSize = 4,
                   local_uncompressedDestination = [0, 255, 0, 0]\<rparr>"
    unfolding DecompressIdatChuncks_def example_handed
    by (simp add: u example_inflate Z_OK_def)
  have n: "length [example_ihdr_chunk, example_idat_chunk, example_iend_chunk] = 3"
    by simp
  have "main_decode example_env zero_ihdr
          [example_ihdr_chunk, example_idat_chunk, example_iend_chunk]
        = Inr (\<lparr>width = 1, height = 1, bitDepth = 8, colorType = 2, compressionMethod = 0,
                 filterMethod = 0, interlaceMethod = 0\<rparr>,
               \<lparr>caller_uncompressedDestination = None, caller_uncompressedSize = 4,
                 local_uncompressedDestination = [0, 255, 0, 0]\<rparr>)"
    unfolding main_decode_def list.case n u(2) d
    using example_header_accepted by simp
  then show ?thesis
    by (simp add: main_def example_main_parse)
qed

end
